theory Spec2Isabelle
  imports Main "HOL-Library.Sublist" "HOL-Library.Multiset"
begin

section \<open>The local-run command of faas-cli (commands/local_run.go)\<close>

text \<open>
  The development embeds \<^verbatim>\<open>commands/local_run.go\<close>: the pre-run check of the
  command, the builder \<^verbatim>\<open>buildDockerRun\<close> that turns a stack function and the run
  options into the argument list of a \<^verbatim>\<open>docker\<close> invocation, and
  \<^verbatim>\<open>dirContainsFiles\<close> with its error type.  Go strings are byte strings and are
  modelled by \<open>string\<close>; a Go \<^verbatim>\<open>map[string]string\<close> is a partial function; a nil
  pointer is \<open>None\<close>; an \<^verbatim>\<open>error\<close> result is the left summand of a sum.
\<close>

subsection \<open>Data model\<close>

text \<open>An error value of a collaborator, kept as its message.\<close>

type_synonym go_error = string

text \<open>\<^verbatim>\<open>stack.FunctionResources\<close> and the fields of \<^verbatim>\<open>stack.Function\<close> that the
  command and its collaborators read.  \<^verbatim>\<open>Limits\<close> is a pointer in Go.\<close>

record FunctionResources =
  Memory :: string
  CPU :: string

record Function =
  Language :: string
  FProcess :: string
  Image :: string
  Environment :: "string \<rightharpoonup> string"
  EnvironmentFile :: "string list"
  Secrets :: "string list"
  Limits :: "FunctionResources option"
  ReadOnlyRootFilesystem :: bool

text \<open>\<^verbatim>\<open>runOptions\<close> (lines 24-31).  The two \<^verbatim>\<open>io.Writer\<close> sinks are not read by
  the builder and are left out.  \<^verbatim>\<open>port\<close> is a Go \<^verbatim>\<open>int\<close>; it is only printed,
  never computed with, so it is an \<open>int\<close> here.\<close>

record runOptions =
  print :: bool
  port :: int
  network :: string
  extraEnv :: "string \<rightharpoonup> string"

text \<open>\<^verbatim>\<open>missingFileError\<close> (lines 228-231).\<close>

record missingFileError =
  missing :: "string list"
  dir :: string

text \<open>The errors \<^verbatim>\<open>buildDockerRun\<close> returns, one constructor per \<^verbatim>\<open>return nil, ...\<close>
  of the source: lines 143, 152, 181, 186 and 192.\<close>

datatype build_error =
    DeriveFprocessError go_error
  | ReadFilesError go_error
  | SecretsFolderError go_error
  | CreateSecretsFolderError string go_error
  | MissingFilesError missingFileError

subsection \<open>The platform: file system, standard library, collaborators\<close>

text \<open>
  The file system maps the paths at which something exists (that is, at which
  \<^verbatim>\<open>os.Stat\<close> succeeds) to what is there; a directory carries the permission bits it
  was created with.  Beside it the world keeps the list of the
  operating-system calls the builder has made, oldest first, so that ``the builder does
  not touch the secrets directory'' is a statement about the model.
\<close>

datatype node = Dir nat | File

datatype os_call = CallAbs string | CallMkdirAll string nat | CallStat string

record world =
  fs :: "string \<rightharpoonup> node"
  calls :: "os_call list"

text \<open>
  What the builder takes from outside \<^verbatim>\<open>local_run.go\<close>, as parameters:
  \<^item> \<open>deriveFprocess\<close> and \<open>readFiles\<close>: functions of the package \<^verbatim>\<open>commands\<close>
    that live in other files; only their result matters to the builder;
  \<^item> \<open>filepath_Abs\<close>, \<open>filepath_Join\<close>: the Go standard library;
  \<^item> \<open>mkdir_refused\<close>: the reason, if any, for which the operating system refuses to
    create a directory at a path where nothing exists (permissions, read-only medium);
  \<^item> \<open>range_order\<close>: the order in which a \<^verbatim>\<open>for ... range\<close> loop over a map visits its
    entries.  Go leaves this order unspecified and its runtime randomises it, so the
    order is a choice of the run: the loop at source line \<open>l\<close> over the map \<open>m\<close>
    visits \<open>range_order l m\<close>.
\<close>

record sys =
  deriveFprocess :: "Function \<Rightarrow> go_error + string"
  readFiles :: "string list \<Rightarrow> go_error + (string \<rightharpoonup> string)"
  filepath_Abs :: "string \<Rightarrow> go_error + string"
  filepath_Join :: "string \<Rightarrow> string \<Rightarrow> string"
  mkdir_refused :: "string \<Rightarrow> go_error option"
  range_order :: "nat \<Rightarrow> (string \<rightharpoonup> string) \<Rightarrow> (string \<times> string) list"

text \<open>A list enumerates a map when it holds every entry of the map exactly once.  A run
  of the program is a \<open>sys\<close> whose \<open>range_order\<close> enumerates the maps it is applied
  to.\<close>

definition enumerates :: "('k \<times> 'v) list \<Rightarrow> ('k \<rightharpoonup> 'v) \<Rightarrow> bool" where
  "enumerates xs m \<longleftrightarrow> distinct (map fst xs) \<and> map_of xs = m"

text \<open>\<^verbatim>\<open>filepath.Abs\<close>: pure in the model, and logged.\<close>

definition os_Abs :: "sys \<Rightarrow> string \<Rightarrow> world \<Rightarrow> (go_error + string) \<times> world" where
  "os_Abs s p w = (filepath_Abs s p, w\<lparr>calls := calls w @ [CallAbs p]\<rparr>)"

text \<open>\<^verbatim>\<open>os.MkdirAll\<close>: nothing to do when the path is a directory already, an error when
  it is something else, otherwise the directory is created with the given permission
  bits (the process's umask is not modelled) unless the operating system refuses.  The
  parents of the path are not tracked.\<close>

definition os_MkdirAll :: "sys \<Rightarrow> string \<Rightarrow> nat \<Rightarrow> world \<Rightarrow> go_error option \<times> world" where
  "os_MkdirAll s p perm w =
     (let w1 = w\<lparr>calls := calls w @ [CallMkdirAll p perm]\<rparr>
      in case fs w p of
           Some (Dir _) \<Rightarrow> (None, w1)
         | Some File \<Rightarrow> (Some ''not a directory'', w1)
         | None \<Rightarrow>
             (case mkdir_refused s p of
                Some e \<Rightarrow> (Some e, w1)
              | None \<Rightarrow> (None, w1\<lparr>fs := (fs w1)(p \<mapsto> Dir perm)\<rparr>)))"

text \<open>\<^verbatim>\<open>os.Stat\<close>: an error exactly when nothing exists at the path.\<close>

definition os_Stat :: "string \<Rightarrow> world \<Rightarrow> go_error option \<times> world" where
  "os_Stat p w =
     (if fs w p = None then Some ''no such file or directory'' else None,
      w\<lparr>calls := calls w @ [CallStat p]\<rparr>)"

text \<open>\<^verbatim>\<open>os.LookupEnv\<close> on the process environment.\<close>

definition os_LookupEnv :: "(string \<rightharpoonup> string) \<Rightarrow> string \<Rightarrow> string \<times> bool" where
  "os_LookupEnv environ k = (case environ k of None \<Rightarrow> ('''', False) | Some v \<Rightarrow> (v, True))"

subsection \<open>Formatting\<close>

text \<open>The verb \<^verbatim>\<open>%d\<close> of \<^verbatim>\<open>fmt.Sprintf\<close>: decimal digits, a minus sign for a
  negative number.\<close>

definition digit_char :: "nat \<Rightarrow> char" where
  "digit_char d = ''0123456789'' ! d"

fun digits :: "nat \<Rightarrow> string" where
  "digits n = (if n < 10 then [digit_char n] else digits (n div 10) @ [digit_char (n mod 10)])"

declare digits.simps [simp del]

definition fmt_d :: "int \<Rightarrow> string" where
  "fmt_d i = (if i < 0 then ''-'' @ digits (nat (- i)) else digits (nat i))"

text \<open>\<^verbatim>\<open>strings.Join\<close>.\<close>

fun strings_Join :: "string list \<Rightarrow> string \<Rightarrow> string" where
  "strings_Join [] sep = ''''"
| "strings_Join [x] sep = x"
| "strings_Join (x # y # ys) sep = x @ sep @ strings_Join (y # ys) sep"

text \<open>\<^verbatim>\<open>missingFileError.Error\<close> (lines 233-235).  The verb \<^verbatim>\<open>%q\<close> is the standard
  library's \<^verbatim>\<open>strconv.Quote\<close>, taken as the parameter \<open>quote\<close>.\<close>

definition missingFileError_Error :: "(string \<Rightarrow> string) \<Rightarrow> missingFileError \<Rightarrow> string" where
  "missingFileError_Error quote m =
     ''create the following secrets ('' @ strings_Join (missing m) '', '' @ '') in: '' @ quote (dir m)"

text \<open>The message of each error of the builder: \<^verbatim>\<open>%w\<close> prints the wrapped error's
  message.\<close>

fun build_error_message :: "(string \<Rightarrow> string) \<Rightarrow> build_error \<Rightarrow> string" where
  "build_error_message quote (DeriveFprocessError e) = e"
| "build_error_message quote (ReadFilesError e) = e"
| "build_error_message quote (SecretsFolderError e) = ''can't determine secrets folder: '' @ e"
| "build_error_message quote (CreateSecretsFolderError p e) =
     ''can't create local secrets folder '' @ quote p @ '': '' @ e"
| "build_error_message quote (MissingFilesError m) =
     ''missing files: '' @ missingFileError_Error quote m"

subsection \<open>The pre-run check (lines 57-71) and the command\<close>

definition experimental_error :: string where
  "experimental_error = ''this command is experimental, set OPENFAAS_EXPERIMENTAL=1 to use it''"

definition PreRunE :: "(string \<rightharpoonup> string) \<Rightarrow> string list \<Rightarrow> go_error option" where
  "PreRunE environ args =
     (let (v, ok) = os_LookupEnv environ ''OPENFAAS_EXPERIMENTAL''
      in if \<not> ok \<or> v = ''0'' then Some experimental_error
         else if length args < 1 then Some ''expected the name of the function''
         else if length args > 1 then Some ''only one function name is allowed''
         else None)"

text \<open>\<^verbatim>\<open>RunE\<close> (lines 72-79) hands the first argument to \<^verbatim>\<open>runFunction\<close>, which
  resolves the function in the stack file, builds the invocation and prints or runs it.
  Everything \<^verbatim>\<open>runFunction\<close> does is a state transformer \<open>run\<close> on a state \<open>'s\<close>
  of the outside world, and a parameter: the claim about the pre-run check holds for
  any such transformer.  Indexing an empty argument list panics in Go.\<close>

definition RunE ::
  "(string \<Rightarrow> runOptions \<Rightarrow> 's \<Rightarrow> go_error option \<times> 's) \<Rightarrow> runOptions \<Rightarrow> string list \<Rightarrow> 's
     \<Rightarrow> go_error option \<times> 's" where
  "RunE run opts args s =
     (case args of
        [] \<Rightarrow> (Some ''panic: index out of range'', s)
      | name # _ \<Rightarrow> run name opts s)"

text \<open>The command framework (cobra) calls \<^verbatim>\<open>PreRunE\<close> first and returns its error
  without calling \<^verbatim>\<open>RunE\<close>.\<close>

definition execute ::
  "(string \<Rightarrow> runOptions \<Rightarrow> 's \<Rightarrow> go_error option \<times> 's) \<Rightarrow> runOptions \<Rightarrow> (string \<rightharpoonup> string)
     \<Rightarrow> string list \<Rightarrow> 's \<Rightarrow> go_error option \<times> 's" where
  "execute run opts environ args s =
     (case PreRunE environ args of
        Some e \<Rightarrow> (Some e, s)
      | None \<Rightarrow> RunE run opts args s)"

subsection \<open>dirContainsFiles (lines 207-226)\<close>

text \<open>The loop of lines 213-219, with the error under construction as accumulator.\<close>

fun dirContainsFiles_loop ::
  "sys \<Rightarrow> string \<Rightarrow> string list \<Rightarrow> missingFileError \<Rightarrow> world \<Rightarrow> missingFileError \<times> world" where
  "dirContainsFiles_loop s d [] err w = (err, w)"
| "dirContainsFiles_loop s d (name # names) err w =
     (let path = filepath_Join s d name;
          (statErr, w1) = os_Stat path w
      in dirContainsFiles_loop s d names
           (if statErr \<noteq> None then err\<lparr>missing := missing err @ [name]\<rparr> else err) w1)"

definition dirContainsFiles ::
  "sys \<Rightarrow> string \<Rightarrow> string list \<Rightarrow> world \<Rightarrow> missingFileError option \<times> world" where
  "dirContainsFiles s d names w =
     (let (err, w1) = dirContainsFiles_loop s d names \<lparr>missing = [], dir = d\<rparr> w
      in if length (missing err) > 0 then (Some err, w1) else (None, w1))"

subsection \<open>buildDockerRun (lines 134-205)\<close>

definition localSecretsDir :: string where
  "localSecretsDir = ''.secrets''"

text \<open>\<^verbatim>\<open>fmt.Sprintf("-e=%s=%s", name, value)\<close>.\<close>

definition env_flag :: "string \<times> string \<Rightarrow> string" where
  "env_flag kv = ''-e='' @ fst kv @ ''='' @ snd kv"

text \<open>One \<^verbatim>\<open>for name, value := range m\<close> loop (lines 146-148, 155-157, 159-161): the
  entries are visited in the order the run chooses, each appending one flag.\<close>

definition range_env :: "sys \<Rightarrow> nat \<Rightarrow> (string \<rightharpoonup> string) \<Rightarrow> string list \<Rightarrow> string list" where
  "range_env s l m args = foldl (\<lambda>args kv. args @ [env_flag kv]) args (range_order s l m)"

text \<open>Lines 167-176.\<close>

definition add_limits :: "Function \<Rightarrow> string list \<Rightarrow> string list" where
  "add_limits fnc args =
     (case Limits fnc of
        None \<Rightarrow> args
      | Some l \<Rightarrow>
          (let args1 = (if Memory l \<noteq> '''' then args @ [''--memory-reservation='' @ Memory l] else args)
           in if CPU l \<noteq> '''' then args1 @ [''--cpus='' @ CPU l] else args1))"

text \<open>Lines 178-197.  The permission \<^verbatim>\<open>0700\<close> is octal, 448.\<close>

definition add_secrets ::
  "sys \<Rightarrow> Function \<Rightarrow> runOptions \<Rightarrow> string list \<Rightarrow> world \<Rightarrow> (build_error + string list) \<times> world" where
  "add_secrets s fnc opts args w =
     (if length (Secrets fnc) > 0 then
        (case os_Abs s localSecretsDir w of
           (Inl e, w1) \<Rightarrow> (Inl (SecretsFolderError e), w1)
         | (Inr secretsPath, w1) \<Rightarrow>
             (case os_MkdirAll s secretsPath 448 w1 of
                (Some e, w2) \<Rightarrow> (Inl (CreateSecretsFolderError secretsPath e), w2)
              | (None, w2) \<Rightarrow>
                  (if \<not> print opts then
                     (case dirContainsFiles s secretsPath (Secrets fnc) w2 of
                        (Some m, w3) \<Rightarrow> (Inl (MissingFilesError m), w3)
                      | (None, w3) \<Rightarrow>
                          (Inr (args @ [''--volume='' @ secretsPath @ '':/var/openfaas/secrets'']), w3))
                   else (Inr (args @ [''--volume='' @ secretsPath @ '':/var/openfaas/secrets'']), w2))))
      else (Inr args, w))"

text \<open>Lines 135-139: the literal the argument list starts from, and the network flag.\<close>

definition base_args :: "runOptions \<Rightarrow> string list" where
  "base_args opts =
     (let args = [''run'', ''--rm'', ''-i'', ''-p='' @ fmt_d (port opts) @ '':8080'']
      in if network opts \<noteq> '''' then args @ [''--network='' @ network opts] else args)"

text \<open>The builder.  The result is the argument list handed to \<^verbatim>\<open>exec.CommandContext\<close>
  after the program name \<^verbatim>\<open>docker\<close>, or the error.\<close>

definition buildDockerRun ::
  "sys \<Rightarrow> Function \<Rightarrow> runOptions \<Rightarrow> world \<Rightarrow> (build_error + string list) \<times> world" where
  "buildDockerRun s fnc opts w =
     (let args1 = base_args opts
      in case deriveFprocess s fnc of
           Inl e \<Rightarrow> (Inl (DeriveFprocessError e), w)
         | Inr fprocess \<Rightarrow>
             (let args2 = range_env s 146 (Environment fnc) args1
              in case readFiles s (EnvironmentFile fnc) of
                   Inl e \<Rightarrow> (Inl (ReadFilesError e), w)
                 | Inr moreEnv \<Rightarrow>
                     (let args3 = range_env s 155 moreEnv args2;
                          args4 = range_env s 159 (extraEnv opts) args3;
                          args5 = (if ReadOnlyRootFilesystem fnc then args4 @ [''--read-only''] else args4);
                          args6 = add_limits fnc args5
                      in case add_secrets s fnc opts args6 w of
                           (Inl e, w1) \<Rightarrow> (Inl e, w1)
                         | (Inr args7, w1) \<Rightarrow>
                             (Inr (args7 @ [''-e=fprocess='' @ fprocess, Image fnc]), w1))))"

subsection \<open>Vocabulary of the claims\<close>

text \<open>The last argument of a built invocation is the image operand; the flags of the
  invocation are the arguments before it.\<close>

definition flags :: "string list \<Rightarrow> string list" where
  "flags args = butlast args"

definition is_port_flag :: "string \<Rightarrow> bool" where
  "is_port_flag a = prefix ''-p='' a"

definition is_network_flag :: "string \<Rightarrow> bool" where
  "is_network_flag a = prefix ''--network='' a"

definition is_env_flag :: "string \<Rightarrow> bool" where
  "is_env_flag a = prefix ''-e='' a"

definition is_memory_flag :: "string \<Rightarrow> bool" where
  "is_memory_flag a = prefix ''--memory-reservation='' a"

definition is_cpu_flag :: "string \<Rightarrow> bool" where
  "is_cpu_flag a = prefix ''--cpus='' a"

definition is_volume_flag :: "string \<Rightarrow> bool" where
  "is_volume_flag a = prefix ''--volume='' a"

definition volume_flag :: "string \<Rightarrow> string" where
  "volume_flag d = ''--volume='' @ d @ '':/var/openfaas/secrets''"

definition fprocess_flag :: "string \<Rightarrow> string" where
  "fprocess_flag fp = ''-e=fprocess='' @ fp"

text \<open>A secret is absent when nothing exists at its path once the secrets directory
  \<open>d\<close> is there.\<close>

definition secret_absent :: "sys \<Rightarrow> world \<Rightarrow> string \<Rightarrow> string \<Rightarrow> bool" where
  "secret_absent s w d n \<longleftrightarrow> filepath_Join s d n \<noteq> d \<and> fs w (filepath_Join s d n) = None"

text \<open>The secrets directory can be made at \<open>d\<close>: it is a directory already, or nothing
  is there and the operating system does not refuse to create it.\<close>

definition can_mkdir :: "sys \<Rightarrow> world \<Rightarrow> string \<Rightarrow> bool" where
  "can_mkdir s w d \<longleftrightarrow>
     (case fs w d of Some (Dir _) \<Rightarrow> True | Some File \<Rightarrow> False | None \<Rightarrow> mkdir_refused s d = None)"

text \<open>The values of the experimental switch that the standard library's
  \<^verbatim>\<open>strconv.ParseBool\<close> reads as false: the reading of ``falsy'' the specification's
  sentence is compared under.\<close>

definition spec_falsy :: "string \<Rightarrow> bool" where
  "spec_falsy v \<longleftrightarrow> v \<in> set [''0'', ''f'', ''F'', ''false'', ''FALSE'', ''False'']"

subsection \<open>Concrete inputs\<close>

text \<open>A run whose map loops visit the keys in the order of the list \<open>ks\<close>.\<close>

definition keys_order :: "string list \<Rightarrow> (string \<rightharpoonup> string) \<Rightarrow> (string \<times> string) list" where
  "keys_order ks m = List.map_filter (\<lambda>k. map_option (Pair k) (m k)) ks"

text \<open>A platform where the entrypoint is the function's \<^verbatim>\<open>FProcess\<close> and its derivation
  fails when that is empty, the environment files (if any) together hold
  \<^verbatim>\<open>MODE=file\<close>, the working directory is
  \<^verbatim>\<open>/work\<close>, and directories can be created.\<close>

definition sys_demo :: "string list \<Rightarrow> sys" where
  "sys_demo ks =
     \<lparr>deriveFprocess = (\<lambda>f. if FProcess f = '''' then Inl ''template not found'' else Inr (FProcess f)),
      readFiles = (\<lambda>files. Inr (if files = [] then Map.empty else [''MODE'' \<mapsto> ''file''])),
      filepath_Abs = (\<lambda>p. Inr (''/work/'' @ p)),
      filepath_Join = (\<lambda>d n. d @ ''/'' @ n),
      mkdir_refused = (\<lambda>p. None),
      range_order = (\<lambda>l. keys_order ks)\<rparr>"

definition fnc_demo :: Function where
  "fnc_demo =
     \<lparr>Language = ''go'', FProcess = ''./handler'', Image = ''stronghash:latest'',
      Environment = Map.empty, EnvironmentFile = [], Secrets = [], Limits = None,
      ReadOnlyRootFilesystem = False\<rparr>"

definition opts_demo :: runOptions where
  "opts_demo = \<lparr>print = False, port = 8081, network = '''', extraEnv = Map.empty\<rparr>"

definition world_demo :: world where
  "world_demo = \<lparr>fs = Map.empty, calls = []\<rparr>"

text \<open>A state transformer standing for \<^verbatim>\<open>runFunction\<close> that records the name it
  was called with.\<close>

definition run_demo :: "string \<Rightarrow> runOptions \<Rightarrow> string list \<Rightarrow> go_error option \<times> string list" where
  "run_demo name opts log = (None, log @ [name])"

section \<open>Properties\<close>

subsection \<open>Evaluation and layout lemmas\<close>

lemma digits_small: "n < 10 \<Longrightarrow> digits n = [digit_char n]"
  by (simp add: digits.simps)

lemma digits_large: "\<not> n < 10 \<Longrightarrow> digits n = digits (n div 10) @ [digit_char (n mod 10)]"
  by (subst digits.simps) simp

lemma range_env_append: "range_env s l m args = args @ map env_flag (range_order s l m)"
proof -
  have "foldl (\<lambda>args kv. args @ [env_flag kv]) args xs = args @ map env_flag xs" for xs
    by (induction xs arbitrary: args) simp_all
  then show ?thesis by (simp add: range_env_def)
qed

lemma add_limits_append: "add_limits fnc args = args @ add_limits fnc []"
  by (simp add: add_limits_def Let_def split: option.splits)

lemma loop_missing:
  "fst (dirContainsFiles_loop s d names err w) =
     err\<lparr>missing := missing err @ filter (\<lambda>n. fs w (filepath_Join s d n) = None) names\<rparr>"
  by (induction names arbitrary: err w) (simp_all add: os_Stat_def Let_def)

lemma loop_world:
  "snd (dirContainsFiles_loop s d names err w) =
     w\<lparr>calls := calls w @ map (\<lambda>n. CallStat (filepath_Join s d n)) names\<rparr>"
  by (induction names arbitrary: err w) (simp_all add: os_Stat_def Let_def)

lemma dirContainsFiles_eq:
  "dirContainsFiles s d names w =
     (let ms = filter (\<lambda>n. fs w (filepath_Join s d n) = None) names
      in (if ms = [] then None else Some \<lparr>missing = ms, dir = d\<rparr>,
          w\<lparr>calls := calls w @ map (\<lambda>n. CallStat (filepath_Join s d n)) names\<rparr>))"
proof -
  obtain e w1 where r: "dirContainsFiles_loop s d names \<lparr>missing = [], dir = d\<rparr> w = (e, w1)"
    by (cases "dirContainsFiles_loop s d names \<lparr>missing = [], dir = d\<rparr> w")
  from r loop_missing [of s d names "\<lparr>missing = [], dir = d\<rparr>" w]
  have e: "e = \<lparr>missing = filter (\<lambda>n. fs w (filepath_Join s d n) = None) names, dir = d\<rparr>"
    by simp
  from r loop_world [of s d names "\<lparr>missing = [], dir = d\<rparr>" w]
  have w1: "w1 = w\<lparr>calls := calls w @ map (\<lambda>n. CallStat (filepath_Join s d n)) names\<rparr>"
    by simp
  show ?thesis
    by (simp add: dirContainsFiles_def r e w1 Let_def)
qed

lemma os_MkdirAll_ok:
  "can_mkdir s w d \<Longrightarrow>
   os_MkdirAll s d perm w =
     (None, w\<lparr>calls := calls w @ [CallMkdirAll d perm],
              fs := (if fs w d = None then (fs w)(d \<mapsto> Dir perm) else fs w)\<rparr>)"
  by (auto simp: can_mkdir_def os_MkdirAll_def Let_def split: option.splits node.splits)

lemma os_MkdirAll_fails:
  "\<not> can_mkdir s w d \<Longrightarrow>
   \<exists>e. os_MkdirAll s d perm w = (Some e, w\<lparr>calls := calls w @ [CallMkdirAll d perm]\<rparr>)"
  by (auto simp: can_mkdir_def os_MkdirAll_def Let_def split: option.splits node.splits)

lemma add_secrets_append:
  "add_secrets s fnc opts args w =
     (case add_secrets s fnc opts [] w of
        (Inl e, w1) \<Rightarrow> (Inl e, w1)
      | (Inr vol, w1) \<Rightarrow> (Inr (args @ vol), w1))"
  by (simp add: add_secrets_def split: prod.splits sum.splits option.splits)

lemma buildDockerRun_layout:
  assumes "buildDockerRun s fnc opts w = (Inr args, w')"
  shows "\<exists>fp more vol.
           deriveFprocess s fnc = Inr fp \<and>
           readFiles s (EnvironmentFile fnc) = Inr more \<and>
           add_secrets s fnc opts [] w = (Inr vol, w') \<and>
           args = base_args opts
                  @ map env_flag (range_order s 146 (Environment fnc))
                  @ map env_flag (range_order s 155 more)
                  @ map env_flag (range_order s 159 (extraEnv opts))
                  @ (if ReadOnlyRootFilesystem fnc then [''--read-only''] else [])
                  @ add_limits fnc [] @ vol @ [fprocess_flag fp, Image fnc]"
proof -
  from assms obtain fp where fp: "deriveFprocess s fnc = Inr fp"
    by (cases "deriveFprocess s fnc") (simp_all add: buildDockerRun_def)
  from assms fp obtain more where more: "readFiles s (EnvironmentFile fnc) = Inr more"
    by (cases "readFiles s (EnvironmentFile fnc)") (simp_all add: buildDockerRun_def Let_def)
  obtain r w1 where sec: "add_secrets s fnc opts [] w = (r, w1)"
    by (cases "add_secrets s fnc opts [] w")
  from assms fp more sec obtain vol where vol: "r = Inr vol"
    by (cases r) (simp_all add: buildDockerRun_def Let_def add_secrets_append [of s fnc opts "_ @ _"]
         add_secrets_append [of s fnc opts "add_limits _ _"])
  from assms fp more sec vol show ?thesis
    apply (simp add: buildDockerRun_def Let_def range_env_append fprocess_flag_def)
    apply (subst (asm) add_secrets_append)
    apply (subst (asm) add_limits_append)
    apply auto
    done
qed

lemmas demo_defs = sys_demo_def fnc_demo_def opts_demo_def world_demo_def keys_order_def
  List.map_filter_simps

lemmas eval_defs = buildDockerRun_def base_args_def range_env_def add_limits_def add_secrets_def
  os_Abs_def os_MkdirAll_def os_Stat_def dirContainsFiles_def localSecretsDir_def env_flag_def
  fmt_d_def digits_small digits_large digit_char_def Let_def

lemma add_secrets_none: "Secrets fnc = [] \<Longrightarrow> add_secrets s fnc opts args w = (Inr args, w)"
  by (simp add: add_secrets_def)

lemma base_args_not_volume: "a \<in> set (base_args opts) \<Longrightarrow> \<not> is_volume_flag a"
  by (auto simp: base_args_def is_volume_flag_def Let_def split: if_splits)

lemma env_flag_not_volume: "\<not> is_volume_flag (env_flag kv)"
  by (simp add: env_flag_def is_volume_flag_def)

lemma add_limits_not_volume: "a \<in> set (add_limits fnc []) \<Longrightarrow> \<not> is_volume_flag a"
  by (auto simp: add_limits_def is_volume_flag_def Let_def split: option.splits if_splits)

lemma add_secrets_vol:
  assumes "add_secrets s fnc opts [] w = (Inr vol, w')"
  shows "(Secrets fnc = [] \<and> vol = []) \<or>
         (Secrets fnc \<noteq> [] \<and> (\<exists>d. filepath_Abs s localSecretsDir = Inr d \<and> vol = [volume_flag d]))"
  using assms
  by (auto simp: add_secrets_def os_Abs_def volume_flag_def split: if_splits sum.splits prod.splits option.splits)

lemma flags_layout:
  assumes "buildDockerRun s fnc opts w = (Inr args, w')"
  shows "\<exists>fp more vol.
           deriveFprocess s fnc = Inr fp \<and>
           readFiles s (EnvironmentFile fnc) = Inr more \<and>
           add_secrets s fnc opts [] w = (Inr vol, w') \<and>
           flags args = base_args opts
                  @ map env_flag (range_order s 146 (Environment fnc))
                  @ map env_flag (range_order s 155 more)
                  @ map env_flag (range_order s 159 (extraEnv opts))
                  @ (if ReadOnlyRootFilesystem fnc then [''--read-only''] else [])
                  @ add_limits fnc [] @ vol @ [fprocess_flag fp]"
proof -
  from buildDockerRun_layout [OF assms] obtain fp more vol where
    h: "deriveFprocess s fnc = Inr fp" "readFiles s (EnvironmentFile fnc) = Inr more"
       "add_secrets s fnc opts [] w = (Inr vol, w')"
    and args: "args = base_args opts
                  @ map env_flag (range_order s 146 (Environment fnc))
                  @ map env_flag (range_order s 155 more)
                  @ map env_flag (range_order s 159 (extraEnv opts))
                  @ (if ReadOnlyRootFilesystem fnc then [''--read-only''] else [])
                  @ add_limits fnc [] @ vol @ [fprocess_flag fp, Image fnc]"
    by blast
  have "flags args = base_args opts
                  @ map env_flag (range_order s 146 (Environment fnc))
                  @ map env_flag (range_order s 155 more)
                  @ map env_flag (range_order s 159 (extraEnv opts))
                  @ (if ReadOnlyRootFilesystem fnc then [''--read-only''] else [])
                  @ add_limits fnc [] @ vol @ [fprocess_flag fp]"
    unfolding flags_def args by (simp add: butlast_append)
  with h show ?thesis by blast
qed

lemma base_args_not_limit: "a \<in> set (base_args opts) \<Longrightarrow> \<not> is_memory_flag a \<and> \<not> is_cpu_flag a"
  by (auto simp: base_args_def is_memory_flag_def is_cpu_flag_def Let_def split: if_splits)

lemma env_flag_not_limit: "\<not> is_memory_flag (env_flag kv) \<and> \<not> is_cpu_flag (env_flag kv)"
  by (simp add: env_flag_def is_memory_flag_def is_cpu_flag_def)

lemma others_not_limit:
  "\<not> is_memory_flag ''--read-only''" "\<not> is_cpu_flag ''--read-only''"
  "\<not> is_memory_flag (volume_flag d)" "\<not> is_cpu_flag (volume_flag d)"
  "\<not> is_memory_flag (fprocess_flag fp)" "\<not> is_cpu_flag (fprocess_flag fp)"
  by (simp_all add: is_memory_flag_def is_cpu_flag_def volume_flag_def fprocess_flag_def)

lemma add_limits_memory:
  "(a \<in> set (add_limits fnc []) \<and> is_memory_flag a) \<longleftrightarrow>
   (\<exists>l. Limits fnc = Some l \<and> Memory l \<noteq> '''' \<and> a = ''--memory-reservation='' @ Memory l)"
  by (cases "Limits fnc") (auto simp: add_limits_def is_memory_flag_def Let_def split: if_splits)

lemma add_limits_cpu:
  "(a \<in> set (add_limits fnc []) \<and> is_cpu_flag a) \<longleftrightarrow>
   (\<exists>l. Limits fnc = Some l \<and> CPU l \<noteq> '''' \<and> a = ''--cpus='' @ CPU l)"
  by (cases "Limits fnc") (auto simp: add_limits_def is_cpu_flag_def Let_def split: if_splits)

lemma flags_memory:
  assumes "buildDockerRun s fnc opts w = (Inr args, w')"
  shows "(a \<in> set (flags args) \<and> is_memory_flag a) \<longleftrightarrow>
         (\<exists>l. Limits fnc = Some l \<and> Memory l \<noteq> '''' \<and> a = ''--memory-reservation='' @ Memory l)"
proof -
  from flags_layout [OF assms] obtain fp more vol where
    vol: "add_secrets s fnc opts [] w = (Inr vol, w')"
    and fl: "flags args = base_args opts
                  @ map env_flag (range_order s 146 (Environment fnc))
                  @ map env_flag (range_order s 155 more)
                  @ map env_flag (range_order s 159 (extraEnv opts))
                  @ (if ReadOnlyRootFilesystem fnc then [''--read-only''] else [])
                  @ add_limits fnc [] @ vol @ [fprocess_flag fp]"
    by blast
  from add_secrets_vol [OF vol] have v: "\<forall>x\<in>set vol. \<not> is_memory_flag x"
    by (auto simp: others_not_limit)
  have "(a \<in> set (flags args) \<and> is_memory_flag a) \<longleftrightarrow> (a \<in> set (add_limits fnc []) \<and> is_memory_flag a)"
    unfolding fl using v base_args_not_limit [of a opts]
    by (auto simp: env_flag_not_limit others_not_limit)
  then show ?thesis by (simp only: add_limits_memory)
qed

lemma flags_cpu:
  assumes "buildDockerRun s fnc opts w = (Inr args, w')"
  shows "(a \<in> set (flags args) \<and> is_cpu_flag a) \<longleftrightarrow>
         (\<exists>l. Limits fnc = Some l \<and> CPU l \<noteq> '''' \<and> a = ''--cpus='' @ CPU l)"
proof -
  from flags_layout [OF assms] obtain fp more vol where
    vol: "add_secrets s fnc opts [] w = (Inr vol, w')"
    and fl: "flags args = base_args opts
                  @ map env_flag (range_order s 146 (Environment fnc))
                  @ map env_flag (range_order s 155 more)
                  @ map env_flag (range_order s 159 (extraEnv opts))
                  @ (if ReadOnlyRootFilesystem fnc then [''--read-only''] else [])
                  @ add_limits fnc [] @ vol @ [fprocess_flag fp]"
    by blast
  from add_secrets_vol [OF vol] have v: "\<forall>x\<in>set vol. \<not> is_cpu_flag x"
    by (auto simp: others_not_limit)
  have "(a \<in> set (flags args) \<and> is_cpu_flag a) \<longleftrightarrow> (a \<in> set (add_limits fnc []) \<and> is_cpu_flag a)"
    unfolding fl using v base_args_not_limit [of a opts]
    by (auto simp: env_flag_not_limit others_not_limit)
  then show ?thesis by (simp only: add_limits_cpu)
qed

lemma build_error_Limits:
  assumes "deriveFprocess s (fnc\<lparr>Limits := x\<rparr>) = deriveFprocess s fnc"
  shows "fst (buildDockerRun s (fnc\<lparr>Limits := x\<rparr>) opts w) = Inl e \<longleftrightarrow>
         fst (buildDockerRun s fnc opts w) = Inl e"
proof -
  have sec: "add_secrets s (fnc\<lparr>Limits := x\<rparr>) opts [] w = add_secrets s fnc opts [] w"
    by (simp add: add_secrets_def cong: prod.case_cong sum.case_cong option.case_cong if_cong)
  show ?thesis
    unfolding buildDockerRun_def Let_def assms
    apply (subst add_secrets_append)
    apply (subst (2) add_secrets_append)
    apply (simp add: sec split: sum.splits prod.splits)
    done
qed

lemma enumerates_set: "enumerates xs m \<Longrightarrow> (k, v) \<in> set xs \<longleftrightarrow> m k = Some v"
  by (auto simp: enumerates_def)

lemma enumerates_length: "enumerates xs m \<Longrightarrow> length xs = card (dom m)"
proof -
  assume e: "enumerates xs m"
  then have "dom m = set (map fst xs)" by (force simp: enumerates_def dom_map_of_conv_image_fst)
  moreover from e have "distinct (map fst xs)" by (simp add: enumerates_def)
  ultimately show ?thesis by (metis distinct_card length_map)
qed

lemma enumerates_mset:
  assumes "enumerates xs m" "enumerates ys m"
  shows "mset xs = mset ys"
proof -
  from assms have "distinct xs" "distinct ys"
    by (auto simp: enumerates_def distinct_map)
  moreover from assms have "set xs = set ys"
    by (auto simp: enumerates_set)
  ultimately show ?thesis by (simp add: set_eq_iff_mset_eq_distinct)
qed

lemma base_args_not_env: "a \<in> set (base_args opts) \<Longrightarrow> \<not> is_env_flag a"
  by (auto simp: base_args_def is_env_flag_def Let_def split: if_splits)

lemma add_limits_not_env: "a \<in> set (add_limits fnc []) \<Longrightarrow> \<not> is_env_flag a"
  by (cases "Limits fnc") (auto simp: add_limits_def is_env_flag_def Let_def split: if_splits)

lemma add_secrets_print:
  assumes "Secrets fnc \<noteq> []" "print opts" "filepath_Abs s localSecretsDir = Inr d" "can_mkdir s w d"
  shows "add_secrets s fnc opts args w =
           (Inr (args @ [volume_flag d]),
            w\<lparr>calls := calls w @ [CallAbs localSecretsDir, CallMkdirAll d 448],
              fs := (if fs w d = None then (fs w)(d \<mapsto> Dir 448) else fs w)\<rparr>)"
proof -
  from assms(4) have "can_mkdir s (w\<lparr>calls := calls w @ [CallAbs localSecretsDir]\<rparr>) d"
    by (simp add: can_mkdir_def)
  from os_MkdirAll_ok [OF this, of 448] assms(1-3) show ?thesis
    by (simp add: add_secrets_def os_Abs_def volume_flag_def)
qed

lemma add_secrets_check:
  assumes "Secrets fnc \<noteq> []" "\<not> print opts" "filepath_Abs s localSecretsDir = Inr d" "can_mkdir s w d"
  shows "add_secrets s fnc opts args w =
           (if filter (secret_absent s w d) (Secrets fnc) = [] then Inr (args @ [volume_flag d])
            else Inl (MissingFilesError \<lparr>missing = filter (secret_absent s w d) (Secrets fnc), dir = d\<rparr>),
            w\<lparr>calls := calls w @ [CallAbs localSecretsDir, CallMkdirAll d 448]
                          @ map (\<lambda>n. CallStat (filepath_Join s d n)) (Secrets fnc),
              fs := (if fs w d = None then (fs w)(d \<mapsto> Dir 448) else fs w)\<rparr>)"
proof -
  define w2 where "w2 = w\<lparr>calls := calls w @ [CallAbs localSecretsDir, CallMkdirAll d 448],
              fs := (if fs w d = None then (fs w)(d \<mapsto> Dir 448) else fs w)\<rparr>"
  from assms(4) have "can_mkdir s (w\<lparr>calls := calls w @ [CallAbs localSecretsDir]\<rparr>) d"
    by (simp add: can_mkdir_def)
  from os_MkdirAll_ok [OF this, of 448]
  have mk: "os_MkdirAll s d 448 (w\<lparr>calls := calls w @ [CallAbs localSecretsDir]\<rparr>) = (None, w2)"
    by (simp add: w2_def)
  have ab: "(\<lambda>n. fs w2 (filepath_Join s d n) = None) = secret_absent s w d"
    by (auto simp: secret_absent_def fun_eq_iff w2_def)
  have dc: "dirContainsFiles s d (Secrets fnc) w2 =
              (if filter (secret_absent s w d) (Secrets fnc) = [] then None
               else Some \<lparr>missing = filter (secret_absent s w d) (Secrets fnc), dir = d\<rparr>,
               w2\<lparr>calls := calls w2 @ map (\<lambda>n. CallStat (filepath_Join s d n)) (Secrets fnc)\<rparr>)"
    by (simp only: dirContainsFiles_eq Let_def ab)
  have "add_secrets s fnc opts args w =
           (if filter (secret_absent s w d) (Secrets fnc) = [] then Inr (args @ [volume_flag d])
            else Inl (MissingFilesError \<lparr>missing = filter (secret_absent s w d) (Secrets fnc), dir = d\<rparr>),
            w2\<lparr>calls := calls w2 @ map (\<lambda>n. CallStat (filepath_Join s d n)) (Secrets fnc)\<rparr>)"
    using assms(1-3)
    by (simp add: add_secrets_def os_Abs_def mk dc volume_flag_def)
  then show ?thesis
    by (simp add: w2_def)
qed

lemma add_secrets_refused:
  assumes "Secrets fnc \<noteq> []" "filepath_Abs s localSecretsDir = Inr d" "\<not> can_mkdir s w d"
  shows "\<exists>e. add_secrets s fnc opts args w =
           (Inl (CreateSecretsFolderError d e),
            w\<lparr>calls := calls w @ [CallAbs localSecretsDir, CallMkdirAll d 448]\<rparr>)"
proof -
  from assms(3) have "\<not> can_mkdir s (w\<lparr>calls := calls w @ [CallAbs localSecretsDir]\<rparr>) d"
    by (simp add: can_mkdir_def)
  from os_MkdirAll_fails [OF this, of 448] obtain e where
    "os_MkdirAll s d 448 (w\<lparr>calls := calls w @ [CallAbs localSecretsDir]\<rparr>) =
       (Some e, w\<lparr>calls := calls w @ [CallAbs localSecretsDir, CallMkdirAll d 448]\<rparr>)"
    by auto
  with assms(1,2) show ?thesis
    by (simp add: add_secrets_def os_Abs_def)
qed

lemma buildDockerRun_reach:
  assumes "deriveFprocess s fnc = Inr fp" "readFiles s (EnvironmentFile fnc) = Inr moreEnv"
  shows "buildDockerRun s fnc opts w =
           (case add_secrets s fnc opts [] w of
              (Inl e, w1) \<Rightarrow> (Inl e, w1)
            | (Inr vol, w1) \<Rightarrow>
                (Inr (base_args opts
                  @ map env_flag (range_order s 146 (Environment fnc))
                  @ map env_flag (range_order s 155 moreEnv)
                  @ map env_flag (range_order s 159 (extraEnv opts))
                  @ (if ReadOnlyRootFilesystem fnc then [''--read-only''] else [])
                  @ add_limits fnc [] @ vol @ [fprocess_flag fp, Image fnc]), w1))"
  unfolding buildDockerRun_def Let_def
  apply (subst add_secrets_append)
  apply (subst add_limits_append)
  apply (simp add: assms range_env_append fprocess_flag_def split: prod.splits sum.splits)
  done

lemma add_secrets_range_order:
  "add_secrets (s\<lparr>range_order := r\<rparr>) fnc opts args w = add_secrets s fnc opts args w"
proof -
  have d: "dirContainsFiles (s\<lparr>range_order := r\<rparr>) p names v = dirContainsFiles s p names v"
    for p names v
    by (simp add: dirContainsFiles_eq)
  have m: "os_MkdirAll (s\<lparr>range_order := r\<rparr>) p n v = os_MkdirAll s p n v" for p n v
    by (simp add: os_MkdirAll_def cong: option.case_cong)
  have a: "os_Abs (s\<lparr>range_order := r\<rparr>) p v = os_Abs s p v" for p v
    by (simp add: os_Abs_def)
  show ?thesis
    by (simp add: add_secrets_def d m a
          cong: prod.case_cong sum.case_cong option.case_cong if_cong)
qed

lemma PreRunE_experimental:
  "PreRunE environ args = Some experimental_error \<longleftrightarrow>
     environ ''OPENFAAS_EXPERIMENTAL'' = None \<or> environ ''OPENFAAS_EXPERIMENTAL'' = Some ''0''"
  by (auto simp: PreRunE_def os_LookupEnv_def experimental_error_def split: option.splits)

text \<open>What a successful build holds about the port and the network, on every input: the
  port-publish flag of the configured port, always, and the network flag exactly when
  \<^verbatim>\<open>network\<close> is not empty.\<close>

lemma port_and_network_flags:
  assumes "buildDockerRun s fnc opts w = (Inr args, w')"
  shows "(a \<in> set (flags args) \<and> is_port_flag a) \<longleftrightarrow> a = ''-p='' @ fmt_d (port opts) @ '':8080''"
    and "(a \<in> set (flags args) \<and> is_network_flag a) \<longleftrightarrow>
           network opts \<noteq> '''' \<and> a = ''--network='' @ network opts"
proof -
  from flags_layout [OF assms] obtain fp moreEnv vol where
    vol: "add_secrets s fnc opts [] w = (Inr vol, w')"
    and fl: "flags args = base_args opts
                  @ map env_flag (range_order s 146 (Environment fnc))
                  @ map env_flag (range_order s 155 moreEnv)
                  @ map env_flag (range_order s 159 (extraEnv opts))
                  @ (if ReadOnlyRootFilesystem fnc then [''--read-only''] else [])
                  @ add_limits fnc [] @ vol @ [fprocess_flag fp]"
    by blast
  have e: "\<not> is_port_flag (env_flag kv)" "\<not> is_network_flag (env_flag kv)" for kv
    by (simp_all add: env_flag_def is_port_flag_def is_network_flag_def)
  have l: "\<not> is_port_flag x \<and> \<not> is_network_flag x" if "x \<in> set (add_limits fnc [])" for x
    using that
    by (cases "Limits fnc")
       (auto simp: add_limits_def is_port_flag_def is_network_flag_def Let_def split: if_splits)
  from add_secrets_vol [OF vol]
  have v: "\<not> is_port_flag x \<and> \<not> is_network_flag x" if "x \<in> set vol" for x
    using that by (auto simp: volume_flag_def is_port_flag_def is_network_flag_def)
  have o: "\<not> is_port_flag ''--read-only''" "\<not> is_network_flag ''--read-only''"
    "\<not> is_port_flag (fprocess_flag fp)" "\<not> is_network_flag (fprocess_flag fp)"
    by (simp_all add: is_port_flag_def is_network_flag_def fprocess_flag_def)
  have bp: "(a \<in> set (base_args opts) \<and> is_port_flag a) \<longleftrightarrow>
              a = ''-p='' @ fmt_d (port opts) @ '':8080''"
    by (auto simp: base_args_def is_port_flag_def Let_def)
  have bn: "(a \<in> set (base_args opts) \<and> is_network_flag a) \<longleftrightarrow>
              network opts \<noteq> '''' \<and> a = ''--network='' @ network opts"
    by (auto simp: base_args_def is_network_flag_def Let_def)
  have "(a \<in> set (flags args) \<and> is_port_flag a) \<longleftrightarrow> (a \<in> set (base_args opts) \<and> is_port_flag a)"
    unfolding fl using l [of a] v [of a] by (auto simp: e o)
  then show "(a \<in> set (flags args) \<and> is_port_flag a) \<longleftrightarrow> a = ''-p='' @ fmt_d (port opts) @ '':8080''"
    by (simp only: bp)
  have "(a \<in> set (flags args) \<and> is_network_flag a) \<longleftrightarrow> (a \<in> set (base_args opts) \<and> is_network_flag a)"
    unfolding fl using l [of a] v [of a] by (auto simp: e o)
  then show "(a \<in> set (flags args) \<and> is_network_flag a) \<longleftrightarrow>
           network opts \<noteq> '''' \<and> a = ''--network='' @ network opts"
    by (simp only: bn)
qed

subsection \<open>Network and port (C1)\<close>

text \<open>
  C1 says that with a non-empty \<^verbatim>\<open>network\<close> the invocation has a network flag and no
  port-publish flag.  The builder starts from a literal that already holds the
  port-publish flag (line 135) and only ever appends to it, so the flag is there
  whatever \<^verbatim>\<open>network\<close> is: with \<^verbatim>\<open>network = "host"\<close> and \<^verbatim>\<open>port = 8081\<close> the
  invocation holds both \<^verbatim>\<open>-p=8081:8080\<close> and \<^verbatim>\<open>--network=host\<close>.  The help text of
  the \<^verbatim>\<open>--network\<close> option (line 86) promises that \<^verbatim>\<open>--port\<close> is ignored when it is
  used.
\<close>

theorem port_flag_with_network:
  "network (opts_demo\<lparr>network := ''host''\<rparr>) \<noteq> '''' \<and>
   fst (buildDockerRun (sys_demo []) fnc_demo (opts_demo\<lparr>network := ''host''\<rparr>) world_demo) =
     Inr [''run'', ''--rm'', ''-i'', ''-p=8081:8080'', ''--network=host'',
          ''-e=fprocess=./handler'', ''stronghash:latest''] \<and>
   is_port_flag ''-p=8081:8080'' \<and> is_network_flag ''--network=host''"
  by (simp add: eval_defs demo_defs is_port_flag_def is_network_flag_def)

subsection \<open>Missing secret files (C2)\<close>

text \<open>
  C2, amended: for a function with a non-empty \<^verbatim>\<open>Secrets\<close> list and \<^verbatim>\<open>print = false\<close>,
  when the entrypoint derivation, the reading of the environment files, the resolution
  of the secrets path and the creation of the secrets directory all succeed and at
  least one declared secret is absent from the directory, the builder returns no
  invocation but one error, the \<^verbatim>\<open>missingFileError\<close> whose \<^verbatim>\<open>missing\<close> field lists
  exactly the absent secrets (in the order of \<^verbatim>\<open>Secrets\<close>) and whose \<^verbatim>\<open>dir\<close> field is
  the resolved directory; its message names both.  As written, without the four
  provisos, the claim fails: a build whose entrypoint derivation fails returns that
  error, which names no secret.
\<close>

theorem missing_secrets_error:
  assumes "Secrets fnc \<noteq> []" and "\<not> print opts"
    and "deriveFprocess s fnc = Inr fp" and "readFiles s (EnvironmentFile fnc) = Inr moreEnv"
    and "filepath_Abs s localSecretsDir = Inr d" and "can_mkdir s w d"
    and "\<exists>n\<in>set (Secrets fnc). secret_absent s w d n"
  shows "fst (buildDockerRun s fnc opts w) =
           Inl (MissingFilesError \<lparr>missing = filter (secret_absent s w d) (Secrets fnc), dir = d\<rparr>) \<and>
         set (filter (secret_absent s w d) (Secrets fnc)) =
           {n \<in> set (Secrets fnc). secret_absent s w d n} \<and>
         build_error_message quote
             (MissingFilesError \<lparr>missing = filter (secret_absent s w d) (Secrets fnc), dir = d\<rparr>) =
           ''missing files: create the following secrets (''
             @ strings_Join (filter (secret_absent s w d) (Secrets fnc)) '', ''
             @ '') in: '' @ quote d"
proof -
  from assms(7) have ne: "filter (secret_absent s w d) (Secrets fnc) \<noteq> []"
    by (simp add: filter_empty_conv)
  have "fst (buildDockerRun s fnc opts w) =
           Inl (MissingFilesError \<lparr>missing = filter (secret_absent s w d) (Secrets fnc), dir = d\<rparr>)"
    by (simp add: buildDockerRun_reach [OF assms(3,4)] add_secrets_check [OF assms(1,2,5,6)] ne)
  then show ?thesis
    by (simp add: missingFileError_Error_def)
qed

theorem missing_secrets_error_witness:
  "fst (buildDockerRun (sys_demo []) (fnc_demo\<lparr>Secrets := [''token'', ''key'']\<rparr>) opts_demo
         (world_demo\<lparr>fs := [''/work/.secrets'' \<mapsto> Dir 448, ''/work/.secrets/key'' \<mapsto> File]\<rparr>)) =
     Inl (MissingFilesError \<lparr>missing = [''token''], dir = ''/work/.secrets''\<rparr>) \<and>
   build_error_message id (MissingFilesError \<lparr>missing = [''token''], dir = ''/work/.secrets''\<rparr>) =
     ''missing files: create the following secrets (token) in: /work/.secrets''"
proof -
  let ?s = "sys_demo []"
  let ?f = "fnc_demo\<lparr>Secrets := [''token'', ''key'']\<rparr>"
  let ?w = "world_demo\<lparr>fs := [''/work/.secrets'' \<mapsto> Dir 448, ''/work/.secrets/key'' \<mapsto> File]\<rparr>"
  let ?d = "''/work/.secrets''"
  have 1: "Secrets ?f \<noteq> []" by simp
  have 2: "\<not> print opts_demo" by (simp add: opts_demo_def)
  have 3: "deriveFprocess ?s ?f = Inr ''./handler''" by (simp add: demo_defs)
  have 4: "readFiles ?s (EnvironmentFile ?f) = Inr Map.empty" by (simp add: demo_defs)
  have 5: "filepath_Abs ?s localSecretsDir = Inr ?d" by (simp add: demo_defs localSecretsDir_def)
  have 6: "can_mkdir ?s ?w ?d" by (simp add: can_mkdir_def)
  have ab: "secret_absent ?s ?w ?d ''token''" "\<not> secret_absent ?s ?w ?d ''key''"
    by (simp_all add: secret_absent_def demo_defs)
  then have 7: "\<exists>n\<in>set (Secrets ?f). secret_absent ?s ?w ?d n" by simp
  from ab have f: "filter (secret_absent ?s ?w ?d) (Secrets ?f) = [''token'']" by simp
  from missing_secrets_error [OF 1 2 3 4 5 6 7, of id] show ?thesis
    unfolding f by simp
qed

theorem missing_secrets_error_counterexample:
  "Secrets (fnc_demo\<lparr>FProcess := '''', Secrets := [''token'']\<rparr>) \<noteq> [] \<and>
   \<not> print opts_demo \<and>
   secret_absent (sys_demo []) world_demo ''/work/.secrets'' ''token'' \<and>
   fst (buildDockerRun (sys_demo []) (fnc_demo\<lparr>FProcess := '''', Secrets := [''token'']\<rparr>)
          opts_demo world_demo) =
     Inl (DeriveFprocessError ''template not found'')"
  by (simp add: eval_defs demo_defs secret_absent_def)

subsection \<open>The entrypoint flag and the image come last (C3)\<close>

text \<open>
  C3: when the build succeeds, the last two arguments are the flag that sets
  \<^verbatim>\<open>fprocess\<close> to the derived entrypoint and then the image reference.  The flags of
  the \<^verbatim>\<open>extraEnv\<close> loop all stand before them: every entry of \<^verbatim>\<open>extraEnv\<close>, one with
  the key \<^verbatim>\<open>fprocess\<close> included, has its flag at an index below that of the derived
  flag.
\<close>

theorem fprocess_image_last:
  assumes "buildDockerRun s fnc opts w = (Inr args, w')"
    and "enumerates (range_order s 159 (extraEnv opts)) (extraEnv opts)"
  shows "\<exists>fp pre mid.
           deriveFprocess s fnc = Inr fp \<and>
           args = pre @ map env_flag (range_order s 159 (extraEnv opts)) @ mid
                  @ [fprocess_flag fp, Image fnc] \<and>
           2 \<le> length args \<and>
           args ! (length args - 2) = fprocess_flag fp \<and>
           args ! (length args - 1) = Image fnc \<and>
           (\<forall>k v. extraEnv opts k = Some v \<longrightarrow>
                  (\<exists>i. i < length args - 2 \<and> args ! i = env_flag (k, v)))"
proof -
  let ?X = "range_order s 159 (extraEnv opts)"
  from buildDockerRun_layout [OF assms(1)] obtain fp more vol where
    fp: "deriveFprocess s fnc = Inr fp"
    and args: "args = base_args opts
                  @ map env_flag (range_order s 146 (Environment fnc))
                  @ map env_flag (range_order s 155 more)
                  @ map env_flag ?X
                  @ (if ReadOnlyRootFilesystem fnc then [''--read-only''] else [])
                  @ add_limits fnc [] @ vol @ [fprocess_flag fp, Image fnc]"
    by blast
  define pre where "pre = base_args opts
                  @ map env_flag (range_order s 146 (Environment fnc))
                  @ map env_flag (range_order s 155 more)"
  define mid where "mid = (if ReadOnlyRootFilesystem fnc then [''--read-only''] else [])
                  @ add_limits fnc [] @ vol"
  have a: "args = pre @ map env_flag ?X @ mid @ [fprocess_flag fp, Image fnc]"
    by (simp add: args pre_def mid_def)
  have len: "length args = length pre + length ?X + length mid + 2"
    by (simp add: a)
  have l2: "args ! (length args - 2) = fprocess_flag fp"
    by (simp add: a nth_append)
  have l1: "args ! (length args - 1) = Image fnc"
    by (simp add: a nth_append)
  have ex: "\<exists>i. i < length args - 2 \<and> args ! i = env_flag (k, v)" if "extraEnv opts k = Some v" for k v
  proof -
    from that assms(2) have "(k, v) \<in> set ?X" by (simp add: enumerates_set)
    then obtain j where j: "j < length ?X" "?X ! j = (k, v)" by (auto simp: in_set_conv_nth)
    have "args ! (length pre + j) = env_flag (k, v)"
      using j by (simp add: a nth_append)
    moreover have "length pre + j < length args - 2" using j len by simp
    ultimately show ?thesis by blast
  qed
  from fp a len l2 l1 ex show ?thesis
    by (intro exI [of _ fp] exI [of _ pre] exI [of _ mid]) auto
qed

theorem fprocess_image_last_witness:
  "buildDockerRun (sys_demo [''fprocess'']) fnc_demo
      (opts_demo\<lparr>extraEnv := [''fprocess'' \<mapsto> ''sh''], print := True\<rparr>) world_demo =
     (Inr [''run'', ''--rm'', ''-i'', ''-p=8081:8080'', ''-e=fprocess=sh'',
           ''-e=fprocess=./handler'', ''stronghash:latest''], world_demo) \<and>
   (\<exists>i. i < 5 \<and>
       [''run'', ''--rm'', ''-i'', ''-p=8081:8080'', ''-e=fprocess=sh'',
        ''-e=fprocess=./handler'', ''stronghash:latest''] ! i = ''-e=fprocess=sh'') \<and>
   [''run'', ''--rm'', ''-i'', ''-p=8081:8080'', ''-e=fprocess=sh'',
    ''-e=fprocess=./handler'', ''stronghash:latest''] ! 5 = ''-e=fprocess=./handler''"
proof -
  let ?o = "opts_demo\<lparr>extraEnv := [''fprocess'' \<mapsto> ''sh''], print := True\<rparr>"
  let ?args = "[''run'', ''--rm'', ''-i'', ''-p=8081:8080'', ''-e=fprocess=sh'',
           ''-e=fprocess=./handler'', ''stronghash:latest'']"
  have b: "buildDockerRun (sys_demo [''fprocess'']) fnc_demo ?o world_demo = (Inr ?args, world_demo)"
    by (simp add: eval_defs demo_defs)
  have e: "enumerates (range_order (sys_demo [''fprocess'']) 159 (extraEnv ?o)) (extraEnv ?o)"
    by (simp add: enumerates_def demo_defs)
  have x: "extraEnv ?o ''fprocess'' = Some ''sh''" by simp
  have d: "deriveFprocess (sys_demo [''fprocess'']) fnc_demo = Inr ''./handler''"
    by (simp add: demo_defs)
  from fprocess_image_last [OF b e] d x
  have "?args ! (length ?args - 2) = fprocess_flag ''./handler'' \<and>
        (\<exists>i. i < length ?args - 2 \<and> ?args ! i = env_flag (''fprocess'', ''sh''))"
    by auto
  with b show ?thesis
    by (simp add: env_flag_def fprocess_flag_def eval_nat_numeral)
qed

subsection \<open>The three layers of environment flags (C4)\<close>

text \<open>
  C4: when the build succeeds, the arguments after the base arguments are three
  contiguous runs of environment flags: the entries of \<^verbatim>\<open>Environment\<close>, then the
  entries read from the environment files, then the entries of \<^verbatim>\<open>extraEnv\<close>.  No
  other argument before the derived \<^verbatim>\<open>fprocess\<close> flag is an environment flag.
  Nothing is deduplicated: each run has one flag per entry of its map, and a key of both
  \<^verbatim>\<open>Environment\<close> and \<^verbatim>\<open>extraEnv\<close> has a flag in the first run and another, later,
  in the third.
\<close>

theorem env_layers:
  assumes "buildDockerRun s fnc opts w = (Inr args, w')"
    and "readFiles s (EnvironmentFile fnc) = Inr moreEnv"
    and "enumerates (range_order s 146 (Environment fnc)) (Environment fnc)"
    and "enumerates (range_order s 155 moreEnv) moreEnv"
    and "enumerates (range_order s 159 (extraEnv opts)) (extraEnv opts)"
  shows "\<exists>suf fp.
           args = base_args opts
                  @ map env_flag (range_order s 146 (Environment fnc))
                  @ map env_flag (range_order s 155 moreEnv)
                  @ map env_flag (range_order s 159 (extraEnv opts))
                  @ suf @ [fprocess_flag fp, Image fnc] \<and>
           (\<forall>a\<in>set (base_args opts). \<not> is_env_flag a) \<and>
           (\<forall>a\<in>set suf. \<not> is_env_flag a) \<and>
           length (range_order s 146 (Environment fnc)) = card (dom (Environment fnc)) \<and>
           length (range_order s 155 moreEnv) = card (dom moreEnv) \<and>
           length (range_order s 159 (extraEnv opts)) = card (dom (extraEnv opts)) \<and>
           (\<forall>k v. Environment fnc k = Some v \<longrightarrow>
                  env_flag (k, v) \<in> set (map env_flag (range_order s 146 (Environment fnc)))) \<and>
           (\<forall>k v. moreEnv k = Some v \<longrightarrow>
                  env_flag (k, v) \<in> set (map env_flag (range_order s 155 moreEnv))) \<and>
           (\<forall>k v. extraEnv opts k = Some v \<longrightarrow>
                  env_flag (k, v) \<in> set (map env_flag (range_order s 159 (extraEnv opts)))) \<and>
           (\<forall>k v1 v2. Environment fnc k = Some v1 \<and> extraEnv opts k = Some v2 \<longrightarrow>
              (\<exists>i j. length (base_args opts) \<le> i \<and>
                     i < length (base_args opts) + card (dom (Environment fnc)) \<and>
                     length (base_args opts) + card (dom (Environment fnc)) + card (dom moreEnv) \<le> j \<and>
                     j < length (base_args opts) + card (dom (Environment fnc)) + card (dom moreEnv)
                           + card (dom (extraEnv opts)) \<and>
                     args ! i = env_flag (k, v1) \<and> args ! j = env_flag (k, v2)))"
proof -
  let ?B = "base_args opts"
  let ?E = "range_order s 146 (Environment fnc)"
  let ?F = "range_order s 155 moreEnv"
  let ?X = "range_order s 159 (extraEnv opts)"
  from buildDockerRun_layout [OF assms(1)] assms(2) obtain fp vol where
    vol: "add_secrets s fnc opts [] w = (Inr vol, w')"
    and args: "args = ?B @ map env_flag ?E @ map env_flag ?F @ map env_flag ?X
                  @ (if ReadOnlyRootFilesystem fnc then [''--read-only''] else [])
                  @ add_limits fnc [] @ vol @ [fprocess_flag fp, Image fnc]"
    by auto
  define suf where "suf = (if ReadOnlyRootFilesystem fnc then [''--read-only''] else [])
                  @ add_limits fnc [] @ vol"
  have a: "args = ?B @ map env_flag ?E @ map env_flag ?F @ map env_flag ?X
                  @ suf @ [fprocess_flag fp, Image fnc]"
    by (simp add: args suf_def)
  have pre: "\<forall>a\<in>set ?B. \<not> is_env_flag a"
    using base_args_not_env by blast
  from add_secrets_vol [OF vol] have "\<forall>a\<in>set vol. \<not> is_env_flag a"
    by (auto simp: is_env_flag_def volume_flag_def)
  then have sufp: "\<forall>a\<in>set suf. \<not> is_env_flag a"
    using add_limits_not_env [of _ fnc] by (auto simp: suf_def is_env_flag_def)
  note lE = enumerates_length [OF assms(3)]
  note lF = enumerates_length [OF assms(4)]
  note lX = enumerates_length [OF assms(5)]
  have inE: "env_flag (k, v) \<in> set (map env_flag ?E)" if "Environment fnc k = Some v" for k v
    using that assms(3) by (auto simp: enumerates_set)
  have inF: "env_flag (k, v) \<in> set (map env_flag ?F)" if "moreEnv k = Some v" for k v
    using that assms(4) by (auto simp: enumerates_set)
  have inX: "env_flag (k, v) \<in> set (map env_flag ?X)" if "extraEnv opts k = Some v" for k v
    using that assms(5) by (auto simp: enumerates_set)
  have two: "\<exists>i j. length ?B \<le> i \<and> i < length ?B + card (dom (Environment fnc)) \<and>
                   length ?B + card (dom (Environment fnc)) + card (dom moreEnv) \<le> j \<and>
                   j < length ?B + card (dom (Environment fnc)) + card (dom moreEnv)
                         + card (dom (extraEnv opts)) \<and>
                   args ! i = env_flag (k, v1) \<and> args ! j = env_flag (k, v2)"
    if "Environment fnc k = Some v1 \<and> extraEnv opts k = Some v2" for k v1 v2
  proof -
    from that assms(3) have "(k, v1) \<in> set ?E" by (simp add: enumerates_set)
    then obtain i0 where i0: "i0 < length ?E" "?E ! i0 = (k, v1)" by (auto simp: in_set_conv_nth)
    from that assms(5) have "(k, v2) \<in> set ?X" by (simp add: enumerates_set)
    then obtain j0 where j0: "j0 < length ?X" "?X ! j0 = (k, v2)" by (auto simp: in_set_conv_nth)
    have "args ! (length ?B + i0) = env_flag (k, v1)"
      using i0 by (simp add: a nth_append)
    moreover have "args ! (length ?B + length ?E + length ?F + j0) = env_flag (k, v2)"
      using j0 by (simp add: a nth_append)
    ultimately show ?thesis
      using i0(1) j0(1) lE lF lX
      by (intro exI [of _ "length ?B + i0"] exI [of _ "length ?B + length ?E + length ?F + j0"]) simp
  qed
  from a pre sufp lE lF lX inE inF inX two show ?thesis
    by (intro exI [of _ suf] exI [of _ fp] conjI) blast+
qed

theorem env_layers_witness:
  "buildDockerRun (sys_demo [''FOO'', ''MODE''])
      (fnc_demo\<lparr>Environment := [''FOO'' \<mapsto> ''a''], EnvironmentFile := [''env.yml'']\<rparr>)
      (opts_demo\<lparr>extraEnv := [''FOO'' \<mapsto> ''b'']\<rparr>) world_demo =
     (Inr [''run'', ''--rm'', ''-i'', ''-p=8081:8080'', ''-e=FOO=a'', ''-e=MODE=file'', ''-e=FOO=b'',
           ''-e=fprocess=./handler'', ''stronghash:latest''], world_demo) \<and>
   (\<exists>i j. 4 \<le> i \<and> i < 5 \<and> 6 \<le> j \<and> j < 7 \<and>
       [''run'', ''--rm'', ''-i'', ''-p=8081:8080'', ''-e=FOO=a'', ''-e=MODE=file'', ''-e=FOO=b'',
        ''-e=fprocess=./handler'', ''stronghash:latest''] ! i = ''-e=FOO=a'' \<and>
       [''run'', ''--rm'', ''-i'', ''-p=8081:8080'', ''-e=FOO=a'', ''-e=MODE=file'', ''-e=FOO=b'',
        ''-e=fprocess=./handler'', ''stronghash:latest''] ! j = ''-e=FOO=b'')"
proof -
  let ?s = "sys_demo [''FOO'', ''MODE'']"
  let ?f = "fnc_demo\<lparr>Environment := [''FOO'' \<mapsto> ''a''], EnvironmentFile := [''env.yml'']\<rparr>"
  let ?o = "opts_demo\<lparr>extraEnv := [''FOO'' \<mapsto> ''b'']\<rparr>"
  let ?m = "[''MODE'' \<mapsto> ''file'']"
  let ?args = "[''run'', ''--rm'', ''-i'', ''-p=8081:8080'', ''-e=FOO=a'', ''-e=MODE=file'', ''-e=FOO=b'',
           ''-e=fprocess=./handler'', ''stronghash:latest'']"
  have b: "buildDockerRun ?s ?f ?o world_demo = (Inr ?args, world_demo)"
    by (simp add: eval_defs demo_defs)
  have rf: "readFiles ?s (EnvironmentFile ?f) = Inr ?m"
    by (simp add: demo_defs)
  have e1: "enumerates (range_order ?s 146 (Environment ?f)) (Environment ?f)"
    by (simp add: enumerates_def demo_defs)
  have e2: "enumerates (range_order ?s 155 ?m) ?m"
    by (simp add: enumerates_def demo_defs)
  have e3: "enumerates (range_order ?s 159 (extraEnv ?o)) (extraEnv ?o)"
    by (simp add: enumerates_def demo_defs)
  have kv: "Environment ?f ''FOO'' = Some ''a'' \<and> extraEnv ?o ''FOO'' = Some ''b''"
    by simp
  have n: "length (base_args ?o) = 4" "card (dom (Environment ?f)) = 1" "card (dom ?m) = 1"
    "card (dom (extraEnv ?o)) = 1"
    by (simp_all add: base_args_def demo_defs)
  from env_layers [OF b rf e1 e2 e3] kv
  have "\<exists>i j. length (base_args ?o) \<le> i \<and>
               i < length (base_args ?o) + card (dom (Environment ?f)) \<and>
               length (base_args ?o) + card (dom (Environment ?f)) + card (dom ?m) \<le> j \<and>
               j < length (base_args ?o) + card (dom (Environment ?f)) + card (dom ?m)
                     + card (dom (extraEnv ?o)) \<and>
               ?args ! i = env_flag (''FOO'', ''a'') \<and> ?args ! j = env_flag (''FOO'', ''b'')"
    by blast
  then have "\<exists>i j. 4 \<le> i \<and> i < 5 \<and> 6 \<le> j \<and> j < 7 \<and>
       ?args ! i = ''-e=FOO=a'' \<and> ?args ! j = ''-e=FOO=b''"
    unfolding n by (simp add: env_flag_def)
  with b show ?thesis by blast
qed

subsection \<open>Two calls on the same input (C5)\<close>

text \<open>
  C5, amended: for a fixed function definition, fixed run options and a fixed file
  system, two calls of the builder differ at most in the order in which their three
  map loops visit the entries.  They leave the same world, fail together and then with
  the same error, and when they succeed both command lines are the base arguments,
  then the flags of \<^verbatim>\<open>Environment\<close>, of the environment files and of \<^verbatim>\<open>extraEnv\<close>,
  each layer in the order its own call visits the map, then one and the same suffix:
  the same arguments before and after the environment flags and, in each of the three
  layers, the same flags up to order.  The command lines need not be identical: the
  loops of lines 146, 155 and 159 range over Go maps, whose iteration order is
  unspecified, and nothing sorts the entries.
\<close>

theorem range_order_only:
  assumes "enumerates (range_order s 146 (Environment fnc)) (Environment fnc)"
    and "enumerates (r 146 (Environment fnc)) (Environment fnc)"
    and "enumerates (range_order s 159 (extraEnv opts)) (extraEnv opts)"
    and "enumerates (r 159 (extraEnv opts)) (extraEnv opts)"
    and "\<forall>m. readFiles s (EnvironmentFile fnc) = Inr m \<longrightarrow>
              enumerates (range_order s 155 m) m \<and> enumerates (r 155 m) m"
  shows "snd (buildDockerRun (s\<lparr>range_order := r\<rparr>) fnc opts w) = snd (buildDockerRun s fnc opts w) \<and>
         (\<forall>e. fst (buildDockerRun (s\<lparr>range_order := r\<rparr>) fnc opts w) = Inl e \<longleftrightarrow>
              fst (buildDockerRun s fnc opts w) = Inl e) \<and>
         (\<forall>args. fst (buildDockerRun s fnc opts w) = Inr args \<longrightarrow>
            (\<exists>args' moreEnv suf.
                readFiles s (EnvironmentFile fnc) = Inr moreEnv \<and>
                fst (buildDockerRun (s\<lparr>range_order := r\<rparr>) fnc opts w) = Inr args' \<and>
                args = base_args opts
                       @ map env_flag (range_order s 146 (Environment fnc))
                       @ map env_flag (range_order s 155 moreEnv)
                       @ map env_flag (range_order s 159 (extraEnv opts))
                       @ suf \<and>
                args' = base_args opts
                       @ map env_flag (r 146 (Environment fnc))
                       @ map env_flag (r 155 moreEnv)
                       @ map env_flag (r 159 (extraEnv opts))
                       @ suf \<and>
                mset (map env_flag (r 146 (Environment fnc))) =
                  mset (map env_flag (range_order s 146 (Environment fnc))) \<and>
                mset (map env_flag (r 155 moreEnv)) = mset (map env_flag (range_order s 155 moreEnv)) \<and>
                mset (map env_flag (r 159 (extraEnv opts))) =
                  mset (map env_flag (range_order s 159 (extraEnv opts))) \<and>
                length args' = length args \<and>
                mset args' = mset args))"
proof (cases "deriveFprocess s fnc")
  case (Inl e)
  then show ?thesis by (simp add: buildDockerRun_def)
next
  case fp: (Inr fp)
  show ?thesis
  proof (cases "readFiles s (EnvironmentFile fnc)")
    case (Inl e)
    with fp show ?thesis by (simp add: buildDockerRun_def Let_def)
  next
    case rf: (Inr moreEnv)
    let ?s' = "s\<lparr>range_order := r\<rparr>"
    have fp': "deriveFprocess ?s' fnc = Inr fp" using fp by simp
    have rf': "readFiles ?s' (EnvironmentFile fnc) = Inr moreEnv" using rf by simp
    from assms(5) rf have eF: "enumerates (range_order s 155 moreEnv) moreEnv"
      "enumerates (r 155 moreEnv) moreEnv" by auto
    have mE: "mset (map env_flag (r 146 (Environment fnc))) =
              mset (map env_flag (range_order s 146 (Environment fnc)))"
      using enumerates_mset [OF assms(2) assms(1)] by (metis mset_map)
    have mF: "mset (map env_flag (r 155 moreEnv)) = mset (map env_flag (range_order s 155 moreEnv))"
      using enumerates_mset [OF eF(2) eF(1)] by (metis mset_map)
    have mX: "mset (map env_flag (r 159 (extraEnv opts))) =
              mset (map env_flag (range_order s 159 (extraEnv opts)))"
      using enumerates_mset [OF assms(4) assms(3)] by (metis mset_map)
    obtain res w1 where sec: "add_secrets s fnc opts [] w = (res, w1)"
      by (cases "add_secrets s fnc opts [] w")
    show ?thesis
    proof (cases res)
      case (Inl e)
      with sec show ?thesis
        by (simp add: buildDockerRun_reach [OF fp rf] buildDockerRun_reach [OF fp' rf']
              add_secrets_range_order)
    next
      case (Inr vol)
      let ?suf = "(if ReadOnlyRootFilesystem fnc then [''--read-only''] else [])
                  @ add_limits fnc [] @ vol @ [fprocess_flag fp, Image fnc]"
      let ?E = "map env_flag (range_order s 146 (Environment fnc))"
      let ?F = "map env_flag (range_order s 155 moreEnv)"
      let ?X = "map env_flag (range_order s 159 (extraEnv opts))"
      let ?E' = "map env_flag (r 146 (Environment fnc))"
      let ?F' = "map env_flag (r 155 moreEnv)"
      let ?X' = "map env_flag (r 159 (extraEnv opts))"
      have b: "buildDockerRun s fnc opts w = (Inr (base_args opts @ ?E @ ?F @ ?X @ ?suf), w1)"
        using sec Inr by (simp add: buildDockerRun_reach [OF fp rf])
      have b': "buildDockerRun ?s' fnc opts w = (Inr (base_args opts @ ?E' @ ?F' @ ?X' @ ?suf), w1)"
        using sec Inr by (simp add: buildDockerRun_reach [OF fp' rf'] add_secrets_range_order)
      have ms: "mset (base_args opts @ ?E' @ ?F' @ ?X' @ ?suf) = mset (base_args opts @ ?E @ ?F @ ?X @ ?suf)"
        using mE mF mX by simp
      have lE: "length ?E' = length ?E" using mE by (metis size_mset)
      have lF: "length ?F' = length ?F" using mF by (metis size_mset)
      have lX: "length ?X' = length ?X" using mX by (metis size_mset)
      have ln: "length (base_args opts @ ?E' @ ?F' @ ?X' @ ?suf) =
                length (base_args opts @ ?E @ ?F @ ?X @ ?suf)"
        using lE lF lX by simp
      have "\<exists>args' m suf.
                readFiles s (EnvironmentFile fnc) = Inr m \<and>
                fst (buildDockerRun ?s' fnc opts w) = Inr args' \<and>
                base_args opts @ ?E @ ?F @ ?X @ ?suf =
                  base_args opts
                       @ map env_flag (range_order s 146 (Environment fnc))
                       @ map env_flag (range_order s 155 m)
                       @ map env_flag (range_order s 159 (extraEnv opts))
                       @ suf \<and>
                args' = base_args opts
                       @ map env_flag (r 146 (Environment fnc))
                       @ map env_flag (r 155 m)
                       @ map env_flag (r 159 (extraEnv opts))
                       @ suf \<and>
                mset (map env_flag (r 146 (Environment fnc))) =
                  mset (map env_flag (range_order s 146 (Environment fnc))) \<and>
                mset (map env_flag (r 155 m)) = mset (map env_flag (range_order s 155 m)) \<and>
                mset (map env_flag (r 159 (extraEnv opts))) =
                  mset (map env_flag (range_order s 159 (extraEnv opts))) \<and>
                length args' = length (base_args opts @ ?E @ ?F @ ?X @ ?suf) \<and>
                mset args' = mset (base_args opts @ ?E @ ?F @ ?X @ ?suf)"
        apply (rule exI [of _ "base_args opts @ ?E' @ ?F' @ ?X' @ ?suf"])
        apply (rule exI [of _ moreEnv])
        apply (rule exI [of _ ?suf])
        using rf b' mE mF mX ms ln apply simp
        done
      with b b' show ?thesis by simp
    qed
  qed
qed


theorem range_order_only_witness:
  "buildDockerRun (sys_demo [''A'', ''B''])
      (fnc_demo\<lparr>Environment := [''A'' \<mapsto> ''1'', ''B'' \<mapsto> ''2'']\<rparr>) opts_demo world_demo =
     (Inr [''run'', ''--rm'', ''-i'', ''-p=8081:8080'', ''-e=A=1'', ''-e=B=2'',
           ''-e=fprocess=./handler'', ''stronghash:latest''], world_demo) \<and>
   buildDockerRun ((sys_demo [''A'', ''B''])\<lparr>range_order := range_order (sys_demo [''B'', ''A''])\<rparr>)
      (fnc_demo\<lparr>Environment := [''A'' \<mapsto> ''1'', ''B'' \<mapsto> ''2'']\<rparr>) opts_demo world_demo =
     (Inr [''run'', ''--rm'', ''-i'', ''-p=8081:8080'', ''-e=B=2'', ''-e=A=1'',
           ''-e=fprocess=./handler'', ''stronghash:latest''], world_demo)"
proof -
  let ?s = "sys_demo [''A'', ''B'']"
  let ?r = "range_order (sys_demo [''B'', ''A''])"
  let ?f = "fnc_demo\<lparr>Environment := [''A'' \<mapsto> ''1'', ''B'' \<mapsto> ''2'']\<rparr>"
  let ?args = "[''run'', ''--rm'', ''-i'', ''-p=8081:8080'', ''-e=A=1'', ''-e=B=2'',
                ''-e=fprocess=./handler'', ''stronghash:latest'']"
  have 1: "enumerates (range_order ?s 146 (Environment ?f)) (Environment ?f)"
    by (auto simp: enumerates_def demo_defs fun_eq_iff)
  have 2: "enumerates (?r 146 (Environment ?f)) (Environment ?f)"
    by (auto simp: enumerates_def demo_defs fun_eq_iff)
  have 3: "enumerates (range_order ?s 159 (extraEnv opts_demo)) (extraEnv opts_demo)"
    by (simp add: enumerates_def demo_defs)
  have 4: "enumerates (?r 159 (extraEnv opts_demo)) (extraEnv opts_demo)"
    by (simp add: enumerates_def demo_defs)
  have 5: "\<forall>m. readFiles ?s (EnvironmentFile ?f) = Inr m \<longrightarrow>
              enumerates (range_order ?s 155 m) m \<and> enumerates (?r 155 m) m"
    by (auto simp: enumerates_def demo_defs)
  have b: "buildDockerRun ?s ?f opts_demo world_demo = (Inr ?args, world_demo)"
    by (simp add: eval_defs demo_defs)
  have fb: "fst (buildDockerRun ?s ?f opts_demo world_demo) = Inr ?args"
    by (simp add: b)
  note t = range_order_only [OF 1 2 3 4 5, of world_demo]
  from t have "snd (buildDockerRun (?s\<lparr>range_order := ?r\<rparr>) ?f opts_demo world_demo) =
               snd (buildDockerRun ?s ?f opts_demo world_demo)"
    by (rule conjunct1)
  then have w: "snd (buildDockerRun (?s\<lparr>range_order := ?r\<rparr>) ?f opts_demo world_demo) = world_demo"
    by (simp only: b snd_conv)
  from t fb obtain args' m suf where
    rf: "readFiles ?s (EnvironmentFile ?f) = Inr m"
    and b': "fst (buildDockerRun (?s\<lparr>range_order := ?r\<rparr>) ?f opts_demo world_demo) = Inr args'"
    and a: "?args = base_args opts_demo
                       @ map env_flag (range_order ?s 146 (Environment ?f))
                       @ map env_flag (range_order ?s 155 m)
                       @ map env_flag (range_order ?s 159 (extraEnv opts_demo))
                       @ suf"
    and a': "args' = base_args opts_demo
                       @ map env_flag (?r 146 (Environment ?f))
                       @ map env_flag (?r 155 m)
                       @ map env_flag (?r 159 (extraEnv opts_demo))
                       @ suf"
    by blast
  from rf have m: "m = Map.empty" by (simp add: demo_defs)
  have ba: "base_args opts_demo = [''run'', ''--rm'', ''-i'', ''-p=8081:8080'']"
    by (simp add: eval_defs demo_defs)
  have e: "map env_flag (range_order ?s 146 (Environment ?f)) = [''-e=A=1'', ''-e=B=2'']"
    "map env_flag (?r 146 (Environment ?f)) = [''-e=B=2'', ''-e=A=1'']"
    "map env_flag (range_order ?s 155 Map.empty) = []" "map env_flag (?r 155 Map.empty) = []"
    "map env_flag (range_order ?s 159 (extraEnv opts_demo)) = []"
    "map env_flag (?r 159 (extraEnv opts_demo)) = []"
    by (simp_all add: demo_defs env_flag_def)
  from a have suf: "suf = [''-e=fprocess=./handler'', ''stronghash:latest'']"
    unfolding m ba e by simp
  from a' have "args' = [''run'', ''--rm'', ''-i'', ''-p=8081:8080'', ''-e=B=2'', ''-e=A=1'',
           ''-e=fprocess=./handler'', ''stronghash:latest'']"
    unfolding m ba e suf by simp
  with b' w have "buildDockerRun (?s\<lparr>range_order := ?r\<rparr>) ?f opts_demo world_demo =
     (Inr [''run'', ''--rm'', ''-i'', ''-p=8081:8080'', ''-e=B=2'', ''-e=A=1'',
           ''-e=fprocess=./handler'', ''stronghash:latest''], world_demo)"
    by (metis prod.collapse)
  with b show ?thesis by blast
qed

theorem range_order_counterexample:
  "enumerates (range_order (sys_demo [''A'', ''B'']) 146 [''A'' \<mapsto> ''1'', ''B'' \<mapsto> ''2''])
     [''A'' \<mapsto> ''1'', ''B'' \<mapsto> ''2''] \<and>
   enumerates (range_order (sys_demo [''B'', ''A'']) 146 [''A'' \<mapsto> ''1'', ''B'' \<mapsto> ''2''])
     [''A'' \<mapsto> ''1'', ''B'' \<mapsto> ''2''] \<and>
   fst (buildDockerRun (sys_demo [''A'', ''B''])
          (fnc_demo\<lparr>Environment := [''A'' \<mapsto> ''1'', ''B'' \<mapsto> ''2'']\<rparr>) opts_demo world_demo) =
     Inr [''run'', ''--rm'', ''-i'', ''-p=8081:8080'', ''-e=A=1'', ''-e=B=2'',
          ''-e=fprocess=./handler'', ''stronghash:latest''] \<and>
   fst (buildDockerRun (sys_demo [''B'', ''A''])
          (fnc_demo\<lparr>Environment := [''A'' \<mapsto> ''1'', ''B'' \<mapsto> ''2'']\<rparr>) opts_demo world_demo) =
     Inr [''run'', ''--rm'', ''-i'', ''-p=8081:8080'', ''-e=B=2'', ''-e=A=1'',
          ''-e=fprocess=./handler'', ''stronghash:latest''] \<and>
   fst (buildDockerRun (sys_demo [''A'', ''B''])
          (fnc_demo\<lparr>Environment := [''A'' \<mapsto> ''1'', ''B'' \<mapsto> ''2'']\<rparr>) opts_demo world_demo) \<noteq>
   fst (buildDockerRun (sys_demo [''B'', ''A''])
          (fnc_demo\<lparr>Environment := [''A'' \<mapsto> ''1'', ''B'' \<mapsto> ''2'']\<rparr>) opts_demo world_demo)"
proof -
  let ?m = "[''A'' \<mapsto> ''1'', ''B'' \<mapsto> ''2'']"
  let ?f = "fnc_demo\<lparr>Environment := ?m\<rparr>"
  have 1: "enumerates (range_order (sys_demo [''A'', ''B'']) 146 ?m) ?m"
    by (auto simp: enumerates_def demo_defs fun_eq_iff)
  have 2: "enumerates (range_order (sys_demo [''B'', ''A'']) 146 ?m) ?m"
    by (auto simp: enumerates_def demo_defs fun_eq_iff)
  have 3: "fst (buildDockerRun (sys_demo [''A'', ''B'']) ?f opts_demo world_demo) =
     Inr [''run'', ''--rm'', ''-i'', ''-p=8081:8080'', ''-e=A=1'', ''-e=B=2'',
          ''-e=fprocess=./handler'', ''stronghash:latest'']"
    by (simp add: eval_defs demo_defs)
  have 4: "fst (buildDockerRun (sys_demo [''B'', ''A'']) ?f opts_demo world_demo) =
     Inr [''run'', ''--rm'', ''-i'', ''-p=8081:8080'', ''-e=B=2'', ''-e=A=1'',
          ''-e=fprocess=./handler'', ''stronghash:latest'']"
    by (simp add: eval_defs demo_defs)
  from 1 2 3 4 show ?thesis by simp
qed

subsection \<open>Print mode skips the check of the secret files (C6)\<close>

text \<open>
  C6, amended: for a function with a non-empty \<^verbatim>\<open>Secrets\<close> list and \<^verbatim>\<open>print = true\<close>,
  when the entrypoint derivation, the reading of the environment files, the resolution
  of the secrets path and the creation of the secrets directory succeed, the build
  succeeds whatever files the directory holds, its invocation has the volume flag that
  binds the directory to \<^verbatim>\<open>/var/openfaas/secrets\<close>, and the only calls made are the path
  resolution and the directory creation: no secret file is looked at.  The claim as
  written assumes only the last two of the four steps to succeed, and fails when the
  entrypoint derivation fails.
\<close>

theorem print_skips_check:
  assumes "Secrets fnc \<noteq> []" and "print opts"
    and "deriveFprocess s fnc = Inr fp" and "readFiles s (EnvironmentFile fnc) = Inr moreEnv"
    and "filepath_Abs s localSecretsDir = Inr d" and "can_mkdir s w d"
  shows "\<exists>args w'. buildDockerRun s fnc opts w = (Inr args, w') \<and>
           volume_flag d \<in> set (flags args) \<and>
           calls w' = calls w @ [CallAbs localSecretsDir, CallMkdirAll d 448]"
  by (simp add: buildDockerRun_reach [OF assms(3,4)] add_secrets_print [OF assms(1,2,5,6)]
        flags_def butlast_append)

theorem print_skips_check_witness:
  "\<exists>args w'.
     buildDockerRun (sys_demo []) (fnc_demo\<lparr>Secrets := [''token'']\<rparr>) (opts_demo\<lparr>print := True\<rparr>)
       world_demo = (Inr args, w') \<and>
     ''--volume=/work/.secrets:/var/openfaas/secrets'' \<in> set (flags args) \<and>
     calls w' = [CallAbs ''.secrets'', CallMkdirAll ''/work/.secrets'' 448]"
proof -
  let ?s = "sys_demo []"
  let ?f = "fnc_demo\<lparr>Secrets := [''token'']\<rparr>"
  let ?o = "opts_demo\<lparr>print := True\<rparr>"
  let ?d = "''/work/.secrets''"
  have 1: "Secrets ?f \<noteq> []" by simp
  have 2: "print ?o" by simp
  have 3: "deriveFprocess ?s ?f = Inr ''./handler''" by (simp add: demo_defs)
  have 4: "readFiles ?s (EnvironmentFile ?f) = Inr Map.empty" by (simp add: demo_defs)
  have 5: "filepath_Abs ?s localSecretsDir = Inr ?d" by (simp add: demo_defs localSecretsDir_def)
  have 6: "can_mkdir ?s world_demo ?d" by (simp add: can_mkdir_def demo_defs)
  from print_skips_check [OF 1 2 3 4 5 6] show ?thesis
    by (simp add: volume_flag_def localSecretsDir_def world_demo_def)
qed

theorem print_skips_check_counterexample:
  "Secrets (fnc_demo\<lparr>FProcess := '''', Secrets := [''token'']\<rparr>) \<noteq> [] \<and>
   print (opts_demo\<lparr>print := True\<rparr>) \<and>
   filepath_Abs (sys_demo []) localSecretsDir = Inr ''/work/.secrets'' \<and>
   can_mkdir (sys_demo []) world_demo ''/work/.secrets'' \<and>
   buildDockerRun (sys_demo []) (fnc_demo\<lparr>FProcess := '''', Secrets := [''token'']\<rparr>)
       (opts_demo\<lparr>print := True\<rparr>) world_demo =
     (Inl (DeriveFprocessError ''template not found''), world_demo)"
  by (simp add: eval_defs demo_defs can_mkdir_def)

subsection \<open>No secrets, no secrets directory (C7)\<close>

text \<open>
  C7: when the function declares no secrets, the builder leaves the world as it found
  it: it makes no call that resolves, creates or inspects the secrets directory (the
  call log and the file system are unchanged, whatever the outcome of the build), and a
  built invocation has no volume-mount flag.
\<close>

theorem no_secrets_no_volume:
  assumes "Secrets fnc = []"
  shows "snd (buildDockerRun s fnc opts w) = w \<and>
         (\<forall>args. fst (buildDockerRun s fnc opts w) = Inr args \<longrightarrow>
                 \<not> (\<exists>a\<in>set (flags args). is_volume_flag a))"
proof
  show "snd (buildDockerRun s fnc opts w) = w"
    using assms
    by (simp add: buildDockerRun_def Let_def add_secrets_none split: sum.splits)
next
  show "\<forall>args. fst (buildDockerRun s fnc opts w) = Inr args \<longrightarrow>
                 \<not> (\<exists>a\<in>set (flags args). is_volume_flag a)"
  proof (intro allI impI)
    fix args
    assume "fst (buildDockerRun s fnc opts w) = Inr args"
    then have "buildDockerRun s fnc opts w = (Inr args, snd (buildDockerRun s fnc opts w))"
      by (metis prod.collapse)
    from buildDockerRun_layout [OF this] assms
    obtain fp more where
      args: "args = base_args opts
                  @ map env_flag (range_order s 146 (Environment fnc))
                  @ map env_flag (range_order s 155 more)
                  @ map env_flag (range_order s 159 (extraEnv opts))
                  @ (if ReadOnlyRootFilesystem fnc then [''--read-only''] else [])
                  @ add_limits fnc [] @ [fprocess_flag fp, Image fnc]"
      by (auto simp: add_secrets_none)
    have "flags args = base_args opts
                  @ map env_flag (range_order s 146 (Environment fnc))
                  @ map env_flag (range_order s 155 more)
                  @ map env_flag (range_order s 159 (extraEnv opts))
                  @ (if ReadOnlyRootFilesystem fnc then [''--read-only''] else [])
                  @ add_limits fnc [] @ [fprocess_flag fp]"
      unfolding flags_def args by (simp add: butlast_append)
    then show "\<not> (\<exists>a\<in>set (flags args). is_volume_flag a)"
      using base_args_not_volume add_limits_not_volume
      by (auto simp: env_flag_not_volume) (simp_all add: is_volume_flag_def fprocess_flag_def)
  qed
qed

theorem no_secrets_no_volume_witness:
  "snd (buildDockerRun (sys_demo []) fnc_demo opts_demo world_demo) = world_demo \<and>
   fst (buildDockerRun (sys_demo []) fnc_demo opts_demo world_demo) =
     Inr [''run'', ''--rm'', ''-i'', ''-p=8081:8080'', ''-e=fprocess=./handler'', ''stronghash:latest''] \<and>
   \<not> (\<exists>a\<in>set (flags [''run'', ''--rm'', ''-i'', ''-p=8081:8080'', ''-e=fprocess=./handler'', ''stronghash:latest'']).
        is_volume_flag a)"
proof -
  have h: "Secrets fnc_demo = []" by (simp add: fnc_demo_def)
  have r: "fst (buildDockerRun (sys_demo []) fnc_demo opts_demo world_demo) =
     Inr [''run'', ''--rm'', ''-i'', ''-p=8081:8080'', ''-e=fprocess=./handler'', ''stronghash:latest'']"
    by (simp add: eval_defs demo_defs)
  from no_secrets_no_volume [OF h, of "sys_demo []" opts_demo world_demo] r
  show ?thesis by simp
qed

subsection \<open>Resource limits (C8)\<close>

text \<open>
  C8: a built invocation has a memory-reservation flag exactly when \<^verbatim>\<open>Limits\<close> is
  present with a non-empty \<^verbatim>\<open>Memory\<close>, and a CPU-quota flag exactly when \<^verbatim>\<open>Limits\<close> is
  present with a non-empty \<^verbatim>\<open>CPU\<close>; such a flag carries the value of its field.  The
  limits never cause an error: replacing \<^verbatim>\<open>Limits\<close> by any other value, absent or
  with empty fields, leaves the errors of the build as they are (the entrypoint
  derivation, a collaborator, being one that does not read \<^verbatim>\<open>Limits\<close>).
\<close>

theorem limits_flags:
  "(\<forall>args w'. buildDockerRun s fnc opts w = (Inr args, w') \<longrightarrow>
      ((\<exists>a\<in>set (flags args). is_memory_flag a) \<longleftrightarrow> (\<exists>l. Limits fnc = Some l \<and> Memory l \<noteq> '''')) \<and>
      ((\<exists>a\<in>set (flags args). is_cpu_flag a) \<longleftrightarrow> (\<exists>l. Limits fnc = Some l \<and> CPU l \<noteq> '''')) \<and>
      (\<forall>a\<in>set (flags args). is_memory_flag a \<longrightarrow>
          (\<exists>l. Limits fnc = Some l \<and> a = ''--memory-reservation='' @ Memory l)) \<and>
      (\<forall>a\<in>set (flags args). is_cpu_flag a \<longrightarrow>
          (\<exists>l. Limits fnc = Some l \<and> a = ''--cpus='' @ CPU l))) \<and>
   (\<forall>x e. deriveFprocess s (fnc\<lparr>Limits := x\<rparr>) = deriveFprocess s fnc \<longrightarrow>
      (fst (buildDockerRun s (fnc\<lparr>Limits := x\<rparr>) opts w) = Inl e \<longleftrightarrow>
       fst (buildDockerRun s fnc opts w) = Inl e))"
proof (intro conjI allI impI)
  fix args w'
  assume b: "buildDockerRun s fnc opts w = (Inr args, w')"
  show "(\<exists>a\<in>set (flags args). is_memory_flag a) \<longleftrightarrow> (\<exists>l. Limits fnc = Some l \<and> Memory l \<noteq> '''')"
    using flags_memory [OF b] by blast
  show "(\<exists>a\<in>set (flags args). is_cpu_flag a) \<longleftrightarrow> (\<exists>l. Limits fnc = Some l \<and> CPU l \<noteq> '''')"
    using flags_cpu [OF b] by blast
  show "\<forall>a\<in>set (flags args). is_memory_flag a \<longrightarrow>
          (\<exists>l. Limits fnc = Some l \<and> a = ''--memory-reservation='' @ Memory l)"
    using flags_memory [OF b] by blast
  show "\<forall>a\<in>set (flags args). is_cpu_flag a \<longrightarrow>
          (\<exists>l. Limits fnc = Some l \<and> a = ''--cpus='' @ CPU l)"
    using flags_cpu [OF b] by blast
next
  fix x e
  assume "deriveFprocess s (fnc\<lparr>Limits := x\<rparr>) = deriveFprocess s fnc"
  then show "fst (buildDockerRun s (fnc\<lparr>Limits := x\<rparr>) opts w) = Inl e \<longleftrightarrow>
       fst (buildDockerRun s fnc opts w) = Inl e"
    by (rule build_error_Limits)
qed

theorem limits_flags_witness:
  "buildDockerRun (sys_demo []) (fnc_demo\<lparr>Limits := Some \<lparr>Memory = ''64m'', CPU = ''''\<rparr>\<rparr>) opts_demo world_demo =
     (Inr [''run'', ''--rm'', ''-i'', ''-p=8081:8080'', ''--memory-reservation=64m'',
           ''-e=fprocess=./handler'', ''stronghash:latest''], world_demo) \<and>
   (\<exists>a\<in>set (flags [''run'', ''--rm'', ''-i'', ''-p=8081:8080'', ''--memory-reservation=64m'',
           ''-e=fprocess=./handler'', ''stronghash:latest'']). is_memory_flag a) \<and>
   \<not> (\<exists>a\<in>set (flags [''run'', ''--rm'', ''-i'', ''-p=8081:8080'', ''--memory-reservation=64m'',
           ''-e=fprocess=./handler'', ''stronghash:latest'']). is_cpu_flag a) \<and>
   (\<forall>e. fst (buildDockerRun (sys_demo [])
             (fnc_demo\<lparr>Limits := Some \<lparr>Memory = ''64m'', CPU = ''''\<rparr>\<rparr>\<lparr>Limits := None\<rparr>)
             opts_demo world_demo) \<noteq> Inl e)"
proof -
  let ?f = "fnc_demo\<lparr>Limits := Some \<lparr>Memory = ''64m'', CPU = ''''\<rparr>\<rparr>"
  let ?args = "[''run'', ''--rm'', ''-i'', ''-p=8081:8080'', ''--memory-reservation=64m'',
           ''-e=fprocess=./handler'', ''stronghash:latest'']"
  have b: "buildDockerRun (sys_demo []) ?f opts_demo world_demo = (Inr ?args, world_demo)"
    by (simp add: eval_defs demo_defs)
  have d: "deriveFprocess (sys_demo []) (?f\<lparr>Limits := None\<rparr>) = deriveFprocess (sys_demo []) ?f"
    by (simp add: demo_defs)
  have l: "\<exists>l. Limits ?f = Some l \<and> Memory l \<noteq> ''''" by simp
  have c: "\<not> (\<exists>l. Limits ?f = Some l \<and> CPU l \<noteq> '''')" by simp
  note t = limits_flags [of "sys_demo []" ?f opts_demo world_demo]
  from t b l have 1: "\<exists>a\<in>set (flags ?args). is_memory_flag a" by blast
  from t b c have 2: "\<not> (\<exists>a\<in>set (flags ?args). is_cpu_flag a)" by blast
  from t d have "\<And>e. fst (buildDockerRun (sys_demo []) (?f\<lparr>Limits := None\<rparr>) opts_demo world_demo) = Inl e \<longleftrightarrow>
       fst (buildDockerRun (sys_demo []) ?f opts_demo world_demo) = Inl e" by blast
  with b have 3: "\<forall>e. fst (buildDockerRun (sys_demo []) (?f\<lparr>Limits := None\<rparr>) opts_demo world_demo) \<noteq> Inl e"
    by simp
  from b 1 2 3 show ?thesis by blast
qed

subsection \<open>The experimental switch (C9)\<close>

text \<open>
  C9, amended: when the environment variable \<^verbatim>\<open>OPENFAAS_EXPERIMENTAL\<close> is absent or
  is exactly the string \<^verbatim>\<open>0\<close>, the command returns the error of the pre-run check and
  the state of the outside world is untouched, whatever \<^verbatim>\<open>runFunction\<close> would do: no
  function is resolved, built or executed.  Every other value enables the command:
  the pre-run check does not return that error, and with one argument
  \<^verbatim>\<open>runFunction\<close> is run on it.  That holds of values that read as false as well, such
  as \<^verbatim>\<open>false\<close>, which is where the claim as written (``absent or falsy'') fails.
\<close>

theorem experimental_gate:
  "(environ ''OPENFAAS_EXPERIMENTAL'' = None \<or> environ ''OPENFAAS_EXPERIMENTAL'' = Some ''0'' \<longrightarrow>
      execute run opts environ args st = (Some experimental_error, st)) \<and>
   (\<forall>v. environ ''OPENFAAS_EXPERIMENTAL'' = Some v \<and> v \<noteq> ''0'' \<longrightarrow>
      PreRunE environ args \<noteq> Some experimental_error \<and>
      execute run opts environ [name] st = run name opts st)"
proof (intro conjI allI impI)
  assume "environ ''OPENFAAS_EXPERIMENTAL'' = None \<or> environ ''OPENFAAS_EXPERIMENTAL'' = Some ''0''"
  then have "PreRunE environ args = Some experimental_error"
    by (simp add: PreRunE_experimental)
  then show "execute run opts environ args st = (Some experimental_error, st)"
    by (simp add: execute_def)
next
  fix v
  assume v: "environ ''OPENFAAS_EXPERIMENTAL'' = Some v \<and> v \<noteq> ''0''"
  then show "PreRunE environ args \<noteq> Some experimental_error"
    by (simp add: PreRunE_experimental)
  from v have "PreRunE environ [name] = None"
    by (simp add: PreRunE_def os_LookupEnv_def)
  then show "execute run opts environ [name] st = run name opts st"
    by (simp add: execute_def RunE_def)
qed

theorem experimental_gate_witness:
  "execute run_demo opts_demo Map.empty [''stronghash''] [] = (Some experimental_error, []) \<and>
   execute run_demo opts_demo [''OPENFAAS_EXPERIMENTAL'' \<mapsto> ''0''] [''stronghash''] [] =
     (Some experimental_error, []) \<and>
   execute run_demo opts_demo [''OPENFAAS_EXPERIMENTAL'' \<mapsto> ''1''] [''stronghash''] [] =
     (None, [''stronghash''])"
proof -
  have 1: "(Map.empty :: string \<rightharpoonup> string) ''OPENFAAS_EXPERIMENTAL'' = None" by simp
  have 2: "[''OPENFAAS_EXPERIMENTAL'' \<mapsto> ''0''] ''OPENFAAS_EXPERIMENTAL'' = Some ''0''" by simp
  have 3: "[''OPENFAAS_EXPERIMENTAL'' \<mapsto> ''1''] ''OPENFAAS_EXPERIMENTAL'' = Some ''1'' \<and> ''1'' \<noteq> ''0''"
    by simp
  from experimental_gate [where environ = Map.empty and run = run_demo and opts = opts_demo
      and args = "[''stronghash'']" and st = "[]"] 1
  have a: "execute run_demo opts_demo Map.empty [''stronghash''] [] = (Some experimental_error, [])"
    by blast
  from experimental_gate [where environ = "[''OPENFAAS_EXPERIMENTAL'' \<mapsto> ''0'']" and run = run_demo
      and opts = opts_demo and args = "[''stronghash'']" and st = "[]"] 2
  have b: "execute run_demo opts_demo [''OPENFAAS_EXPERIMENTAL'' \<mapsto> ''0''] [''stronghash''] [] =
     (Some experimental_error, [])"
    by blast
  from experimental_gate [where environ = "[''OPENFAAS_EXPERIMENTAL'' \<mapsto> ''1'']" and run = run_demo
      and opts = opts_demo and name = "''stronghash''" and st = "[]"] 3
  have "execute run_demo opts_demo [''OPENFAAS_EXPERIMENTAL'' \<mapsto> ''1''] [''stronghash''] [] =
     run_demo ''stronghash'' opts_demo []"
    by blast
  then have c: "execute run_demo opts_demo [''OPENFAAS_EXPERIMENTAL'' \<mapsto> ''1''] [''stronghash''] [] =
     (None, [''stronghash''])"
    by (simp add: run_demo_def)
  from a b c show ?thesis by blast
qed

theorem experimental_gate_counterexample:
  "spec_falsy ''false'' \<and>
   PreRunE [''OPENFAAS_EXPERIMENTAL'' \<mapsto> ''false''] [''stronghash''] = None \<and>
   execute run_demo opts_demo [''OPENFAAS_EXPERIMENTAL'' \<mapsto> ''false''] [''stronghash''] [] =
     (None, [''stronghash''])"
  by (simp add: spec_falsy_def PreRunE_def os_LookupEnv_def execute_def RunE_def run_demo_def)

subsection \<open>The secrets directory is created in print mode too (C10)\<close>

text \<open>
  C10, amended: for a function with a non-empty \<^verbatim>\<open>Secrets\<close> list, when the
  entrypoint derivation, the reading of the environment files and the resolution of the
  secrets path succeed, the builder calls \<^verbatim>\<open>os.MkdirAll\<close> on the resolved path with
  permission \<^verbatim>\<open>0700\<close> right after resolving it, whether \<^verbatim>\<open>print\<close> is set or not; when
  the directory can be made, a missing directory exists afterwards with permission
  \<^verbatim>\<open>0700\<close> (so a dry run changes the file system), and the per-secret \<^verbatim>\<open>os.Stat\<close>
  calls follow exactly when \<^verbatim>\<open>print\<close> is false.  As written, for every function with
  secrets, the claim fails: when the entrypoint derivation fails the builder returns
  before the secrets block and creates nothing.
\<close>

theorem mkdir_in_print_mode:
  assumes "Secrets fnc \<noteq> []"
    and "deriveFprocess s fnc = Inr fp" and "readFiles s (EnvironmentFile fnc) = Inr moreEnv"
    and "filepath_Abs s localSecretsDir = Inr d"
  shows "take (length (calls w) + 2) (calls (snd (buildDockerRun s fnc opts w))) =
           calls w @ [CallAbs localSecretsDir, CallMkdirAll d 448] \<and>
         (can_mkdir s w d \<longrightarrow>
            fs (snd (buildDockerRun s fnc opts w)) d =
              (if fs w d = None then Some (Dir 448) else fs w d) \<and>
            calls (snd (buildDockerRun s fnc opts w)) =
              calls w @ [CallAbs localSecretsDir, CallMkdirAll d 448]
                @ (if print opts then [] else map (\<lambda>n. CallStat (filepath_Join s d n)) (Secrets fnc)))"
proof (cases "can_mkdir s w d")
  case False
  from add_secrets_refused [OF assms(1,4) False, of opts "[]"] show ?thesis
    using False by (auto simp: buildDockerRun_reach [OF assms(2,3)])
next
  case mk: True
  show ?thesis
  proof (cases "print opts")
    case True
    then show ?thesis
      by (simp add: buildDockerRun_reach [OF assms(2,3)] add_secrets_print [OF assms(1) True assms(4) mk])
  next
    case False
    then show ?thesis
      by (simp add: buildDockerRun_reach [OF assms(2,3)] add_secrets_check [OF assms(1) False assms(4) mk])
  qed
qed

theorem mkdir_in_print_mode_witness:
  "fs (snd (buildDockerRun (sys_demo []) (fnc_demo\<lparr>Secrets := [''token'']\<rparr>)
             (opts_demo\<lparr>print := True\<rparr>) world_demo)) ''/work/.secrets'' = Some (Dir 448) \<and>
   calls (snd (buildDockerRun (sys_demo []) (fnc_demo\<lparr>Secrets := [''token'']\<rparr>)
             (opts_demo\<lparr>print := True\<rparr>) world_demo)) =
     [CallAbs ''.secrets'', CallMkdirAll ''/work/.secrets'' 448]"
proof -
  let ?s = "sys_demo []"
  let ?f = "fnc_demo\<lparr>Secrets := [''token'']\<rparr>"
  let ?o = "opts_demo\<lparr>print := True\<rparr>"
  let ?d = "''/work/.secrets''"
  have 1: "Secrets ?f \<noteq> []" by simp
  have 3: "deriveFprocess ?s ?f = Inr ''./handler''" by (simp add: demo_defs)
  have 4: "readFiles ?s (EnvironmentFile ?f) = Inr Map.empty" by (simp add: demo_defs)
  have 5: "filepath_Abs ?s localSecretsDir = Inr ?d" by (simp add: demo_defs localSecretsDir_def)
  have 6: "can_mkdir ?s world_demo ?d" by (simp add: can_mkdir_def demo_defs)
  from mkdir_in_print_mode [OF 1 3 4 5, of world_demo ?o] 6 show ?thesis
    by (simp add: localSecretsDir_def world_demo_def)
qed

theorem mkdir_in_print_mode_counterexample:
  "Secrets (fnc_demo\<lparr>FProcess := '''', Secrets := [''token'']\<rparr>) \<noteq> [] \<and>
   fs world_demo ''/work/.secrets'' = None \<and>
   fs (snd (buildDockerRun (sys_demo []) (fnc_demo\<lparr>FProcess := '''', Secrets := [''token'']\<rparr>)
             (opts_demo\<lparr>print := True\<rparr>) world_demo)) ''/work/.secrets'' = None \<and>
   calls (snd (buildDockerRun (sys_demo []) (fnc_demo\<lparr>FProcess := '''', Secrets := [''token'']\<rparr>)
             (opts_demo\<lparr>print := True\<rparr>) world_demo)) = []"
  by (simp add: eval_defs demo_defs)

end
